theory Spec2Isabelle
  imports Complex_Main "HOL-Library.AList" "HOL-Library.Sublist" "HOL-Library.Multiset"
begin

section \<open>Python values used by the persona package\<close>

text \<open>
  Python floats are modelled as exact reals, Python strings as \<open>string\<close> restricted to
  ASCII text, and the exceptions the package can raise as values of \<open>py_error\<close>.
  A \<open>print\<close> has no effect on any value and is left out.
\<close>

datatype py_error = IndexError | KeyError string | ValueError

subsection \<open>String operations\<close>

definition upper_letters :: string where
  "upper_letters = ''ABCDEFGHIJKLMNOPQRSTUVWXYZ''"

definition lower_letters :: string where
  "lower_letters = ''abcdefghijklmnopqrstuvwxyz''"

definition lower_char :: "char \<Rightarrow> char" where
  "lower_char c = (case map_of (zip upper_letters lower_letters) c of Some d \<Rightarrow> d | None \<Rightarrow> c)"

text \<open>\<open>str.lower()\<close>\<close>

definition lower :: "string \<Rightarrow> string" where
  "lower s = map lower_char s"

text \<open>\<open>str.isspace()\<close> on one ASCII character: tab, line feed, vertical tab, form feed,
  carriage return, the four separators 0x1c to 0x1f, and space.\<close>

definition is_space :: "char \<Rightarrow> bool" where
  "is_space c = ((9 \<le> (of_char c :: nat) \<and> (of_char c :: nat) \<le> 13)
     \<or> (28 \<le> (of_char c :: nat) \<and> (of_char c :: nat) \<le> 32))"

text \<open>\<open>str.strip()\<close>\<close>

definition strip :: "string \<Rightarrow> string" where
  "strip s = rev (dropWhile is_space (rev (dropWhile is_space s)))"

text \<open>\<open>str.split()\<close> with no separator: the maximal runs of non-whitespace characters.
  The accumulator \<open>w\<close> is the current run, reversed.\<close>

fun split_acc :: "string \<Rightarrow> string \<Rightarrow> string list" where
  "split_acc w [] = (if w = [] then [] else [rev w])"
| "split_acc w (c # cs) =
     (if is_space c then (if w = [] then split_acc [] cs else rev w # split_acc [] cs)
      else split_acc (c # w) cs)"

definition split :: "string \<Rightarrow> string list" where
  "split s = split_acc [] s"

text \<open>\<open>pattern in text\<close>: the pattern occurs as a contiguous substring.\<close>

fun contains :: "string \<Rightarrow> string \<Rightarrow> bool" where
  "contains p [] = (p = [])"
| "contains p (c # cs) = (prefix p (c # cs) \<or> contains p cs)"

text \<open>\<open>str.isupper()\<close>: at least one cased character and no lowercase one.\<close>

definition isupper :: "string \<Rightarrow> bool" where
  "isupper s = (list_ex (\<lambda>c. c \<in> set upper_letters) s \<and> list_all (\<lambda>c. c \<notin> set lower_letters) s)"

text \<open>Decimal rendering of a count inside an f-string.\<close>

definition digit_char :: "nat \<Rightarrow> char" where
  "digit_char d = char_of (48 + d)"

function string_of_nat :: "nat \<Rightarrow> string" where
  "string_of_nat n = (if n < 10 then [digit_char n] else string_of_nat (n div 10) @ [digit_char (n mod 10)])"
  by pat_completeness auto
termination
  by (relation "measure id") auto

declare string_of_nat.simps [simp del]

section \<open>Sentiment analyzer (hormone\_adjuster.py)\<close>

record emotion_config =
  patterns :: "string list"
  config_hormones :: "(string \<times> real) list"
  base_intensity :: real

text \<open>\<open>_EMOTION_PATTERNS\<close>, in the insertion order of the dictionary literal.\<close>

definition EMOTION_PATTERNS :: "(string \<times> emotion_config) list" where
  "EMOTION_PATTERNS =
    [(''strong_negative'',
        \<lparr>patterns = ['' you'', ''you suck'', ''terrible'', ''awful'', ''worst'',
                     ''you'' @ [CHR 0x27] @ ''re terrible'', ''you'' @ [CHR 0x27] @ ''re awful''],
         config_hormones = [(''cortisol'', 0.15), (''serotonin'', -0.1), (''dopamine'', -0.05)],
         base_intensity = 0.8\<rparr>),
     (''strong_positive'',
        \<lparr>patterns = [''love you'', ''i love you'', ''amazing'', ''wonderful'', ''fantastic'',
                     ''best ever'', ''you'' @ [CHR 0x27] @ ''re amazing'',
                     ''you'' @ [CHR 0x27] @ ''re wonderful''],
         config_hormones = [(''dopamine'', 0.15), (''serotonin'', 0.1), (''oxytocin'', 0.1)],
         base_intensity = 0.8\<rparr>),
     (''moderate_negative'',
        \<lparr>patterns = [''you are bad'', ''bad'', ''not good'', ''disappointed'', ''annoyed'',
                     ''stupid'', ''foolish''],
         config_hormones = [(''cortisol'', 0.08), (''serotonin'', -0.05)],
         base_intensity = 0.6\<rparr>),
     (''moderate_positive'',
        \<lparr>patterns = [''good'', ''nice'', ''like it'', ''thanks'', ''great'', ''thank you''],
         config_hormones = [(''dopamine'', 0.08), (''serotonin'', 0.05)],
         base_intensity = 0.6\<rparr>),
     (''affectionate'',
        \<lparr>patterns = [''kiss'', ''i kiss you'', ''hug'', ''cuddle'', ''hold you'', ''miss you'',
                     ''kiss you''],
         config_hormones = [(''oxytocin'', 0.12), (''dopamine'', 0.06)],
         base_intensity = 0.7\<rparr>),
     (''playful'',
        \<lparr>patterns = [''lets go'', ''let'' @ [CHR 0x27] @ ''s go'', ''ride'', ''play'', ''fun'',
                     ''adventure'', ''explore'', ''lets go for a ride''],
         config_hormones = [(''dopamine'', 0.1), (''oxytocin'', 0.05)],
         base_intensity = 0.6\<rparr>),
     (''offensive'',
        \<lparr>patterns = [''dirty'', ''nasty'', ''disgusting'', ''gross''],
         config_hormones = [(''cortisol'', 0.1), (''serotonin'', -0.08)],
         base_intensity = 0.7\<rparr>)]"

definition profanity_words :: "string list" where
  "profanity_words = [''fuck'', ''shit'', ''damn'', ''hell'']"

text \<open>The four modifiers of \<open>calculate_contextual_intensity\<close>, each as the factor the
  corresponding \<open>if\<close> statement multiplies the running intensity by (1 when it does not
  fire).\<close>

definition exclamation_factor :: "string \<Rightarrow> real" where
  "exclamation_factor text =
     (let exclamation_count = count_list text (CHR ''!'')
      in if exclamation_count > 0 then 1 + 0.1 * real (min exclamation_count 3) else 1)"

definition caps_factor :: "string \<Rightarrow> real" where
  "caps_factor text = (if isupper text \<and> length text > 3 then 1.2 else 1)"

definition profanity_factor :: "string \<Rightarrow> real" where
  "profanity_factor text =
     (if list_ex (\<lambda>word. contains word (lower text)) profanity_words then 1.3 else 1)"

definition repetition_fires :: "string \<Rightarrow> bool" where
  "repetition_fires text =
     (let words = split (lower text)
      in length words > 1 \<and> real (length (remdups words)) < real (length words) * 0.7)"

definition repetition_factor :: "string \<Rightarrow> real" where
  "repetition_factor text = (if repetition_fires text then 1.15 else 1)"

definition calculate_contextual_intensity :: "string \<Rightarrow> real \<Rightarrow> real" where
  "calculate_contextual_intensity text base =
     (let intensity = base;
          intensity = intensity * exclamation_factor text;
          intensity = intensity * caps_factor text;
          intensity = intensity * profanity_factor text;
          intensity = intensity * repetition_factor text
      in min 1.0 intensity)"

record sentiment_result =
  emotion_type :: string
  intensity :: real
  hormone_adjustments :: "(string \<times> real) list"
  confidence :: real
  triggered_by :: string
  analysis_method :: string

definition positive_words :: "string list" where
  "positive_words =
    [''good'', ''great'', ''awesome'', ''happy'', ''love'', ''excellent'', ''wonderful'',
     ''amazing'', ''fantastic'', ''brilliant'', ''perfect'', ''beautiful'', ''nice'',
     ''enjoy'', ''like'', ''fun'', ''exciting'', ''yes'', ''thank'', ''thanks'', ''sweet'',
     ''cool'', ''best'', ''super'', ''fine'']"

definition negative_words :: "string list" where
  "negative_words =
    [''bad'', ''terrible'', ''sad'', ''hate'', ''awful'', ''horrible'', ''disappointed'',
     ''frustrated'', ''angry'', ''upset'', ''annoyed'', ''stressed'', ''fuck'', ''shit'',
     ''damn'', ''stupid'', ''foolish'', ''no'', ''don'' @ [CHR 0x27] @ ''t'', ''stop'', ''worst'',
     ''suck'', ''nasty'', ''gross'', ''disgusting'', ''dirty'']"

definition word_level_sentiment_analysis :: "string \<Rightarrow> sentiment_result" where
  "word_level_sentiment_analysis text =
     (let words = split text;
          positive_count = length (filter (\<lambda>word. word \<in> set positive_words) words);
          negative_count = length (filter (\<lambda>word. word \<in> set negative_words) words)
      in if positive_count > 0 \<and> positive_count \<ge> negative_count then
           \<lparr>emotion_type = ''moderate_positive'',
            intensity = min 0.7 (0.4 + real positive_count * 0.1),
            hormone_adjustments = [(''dopamine'', 0.08), (''serotonin'', 0.05)],
            confidence = 0.6,
            triggered_by = string_of_nat positive_count @ '' positive words'',
            analysis_method = ''word_analysis''\<rparr>
         else if negative_count > 0 \<and> negative_count > positive_count then
           \<lparr>emotion_type = ''moderate_negative'',
            intensity = min 0.7 (0.4 + real negative_count * 0.1),
            hormone_adjustments = [(''cortisol'', 0.08), (''serotonin'', -0.05)],
            confidence = 0.6,
            triggered_by = string_of_nat negative_count @ '' negative words'',
            analysis_method = ''word_analysis''\<rparr>
         else
           \<lparr>emotion_type = ''neutral'',
            intensity = 0.3,
            hormone_adjustments = [],
            confidence = 0.4,
            triggered_by = ''no clear sentiment'',
            analysis_method = ''neutral_fallback''\<rparr>)"

text \<open>The two nested \<open>for\<close> loops of \<open>analyze_contextual_sentiment\<close>: the inner one over the
  patterns of one category, the outer one over the categories; the first hit returns.\<close>

fun match_patterns :: "string \<Rightarrow> string list \<Rightarrow> string option" where
  "match_patterns text_lower [] = None"
| "match_patterns text_lower (pattern # rest) =
     (if contains pattern text_lower then Some pattern else match_patterns text_lower rest)"

fun match_categories ::
  "string \<Rightarrow> string \<Rightarrow> (string \<times> emotion_config) list \<Rightarrow> sentiment_result option" where
  "match_categories text text_lower [] = None"
| "match_categories text text_lower ((emotion, config) # rest) =
     (case match_patterns text_lower (patterns config) of
        Some pattern \<Rightarrow>
          Some \<lparr>emotion_type = emotion,
                intensity = calculate_contextual_intensity text (base_intensity config),
                hormone_adjustments = config_hormones config,
                confidence = 0.9,
                triggered_by = pattern,
                analysis_method = ''pattern_match''\<rparr>
      | None \<Rightarrow> match_categories text text_lower rest)"

definition analyze_contextual_sentiment :: "string \<Rightarrow> sentiment_result" where
  "analyze_contextual_sentiment text =
     (let text_lower = strip (lower text)
      in case match_categories text text_lower EMOTION_PATTERNS of
           Some result \<Rightarrow> result
         | None \<Rightarrow> word_level_sentiment_analysis text_lower)"

section \<open>State store\<close>

text \<open>
  The four JSON documents the package keeps on disk. A document is missing, present but
  not parseable, or present with a value. How a write of a file ends is a condition of the
  environment, recorded per file in \<open>write_outcome\<close>: it succeeds, or it fails before the
  file is opened for writing (directory, permissions) and leaves the document as it was, or
  it fails after \<open>open(path, "w")\<close> has truncated the file (\<open>json.dump\<close>, disk) and leaves
  an empty or partial file, which no longer parses.
\<close>

type_synonym hormone_record = "string \<Rightarrow> real option"

type_synonym mood_weights = "(string \<times> (string \<times> real) list) list"

datatype file_id = HORMONES_FILE | MOOD_WEIGHTS_FILE | MOOD_ADJUSTMENTS_FILE | MOOD_HISTORY_FILE

datatype 'a document = Missing | Malformed | Doc 'a

datatype write_result = Write_ok | Open_fails | Dump_fails

text \<open>The context dictionary of a mood; \<open>update_mood\<close> reads it with \<open>.get(key, default)\<close>,
  so every key may be absent.\<close>

record mood_context =
  ctx_mood :: "string option"
  ctx_intensity :: "real option"
  ctx_is_hybrid :: "bool option"
  ctx_is_emergent :: "bool option"
  ctx_stability :: "string option"

record mood_data =
  current_mood :: string
  md_intensity :: real
  md_context :: mood_context
  last_updated :: string

record history_entry =
  timestamp :: string
  he_mood :: string
  he_intensity :: real
  he_reason :: string
  is_hybrid :: bool
  is_emergent :: bool
  stability :: string
  hormone_snapshot :: "hormone_record option"

record store =
  hormones_file :: "hormone_record document"
  mood_weights_file :: "mood_weights document"
  mood_adjustments_file :: "mood_data document"
  mood_history_file :: "history_entry list document"
  write_outcome :: "file_id \<Rightarrow> write_result"

definition writable :: "store \<Rightarrow> file_id \<Rightarrow> bool" where
  "writable st f = (write_outcome st f = Write_ok)"

text \<open>\<open>with open(path, "w") as f: json.dump(value, f)\<close> inside a \<open>try\<close> whose handler only
  logs: the document the file holds afterwards.\<close>

definition written :: "write_result \<Rightarrow> 'a \<Rightarrow> 'a document \<Rightarrow> 'a document" where
  "written r v old = (case r of Write_ok \<Rightarrow> Doc v | Open_fails \<Rightarrow> old | Dump_fails \<Rightarrow> Malformed)"

definition DEFAULT_HORMONES :: hormone_record where
  "DEFAULT_HORMONES =
     map_of [(''dopamine'', 0.5), (''serotonin'', 0.5), (''cortisol'', 0.5), (''oxytocin'', 0.5)]"

definition DEFAULT_MOOD_WEIGHTS :: mood_weights where
  "DEFAULT_MOOD_WEIGHTS =
    [(''cheerful'', [(''dopamine'', 0.7), (''serotonin'', 0.3)]),
     (''anxious'', [(''cortisol'', 0.8), (''dopamine'', -0.3)]),
     (''affectionate'', [(''oxytocin'', 0.9)]),
     (''depressed'', [(''serotonin'', -0.5), (''cortisol'', 0.6)]),
     (''excited'', [(''dopamine'', 0.8), (''cortisol'', 0.2)]),
     (''melancholic'', [(''serotonin'', -0.4), (''dopamine'', -0.2)]),
     (''energetic'', [(''dopamine'', 0.6), (''serotonin'', 0.4)]),
     (''contemplative'', [(''serotonin'', 0.3), (''cortisol'', -0.2)]),
     (''restless'', [(''cortisol'', 0.5), (''dopamine'', 0.3)]),
     (''serene'', [(''serotonin'', 0.8), (''cortisol'', -0.4)])]"

text \<open>\<open>_ensure_file\<close> followed by the read, for the hormone record.\<close>

definition load_hormone_levels :: "store \<Rightarrow> hormone_record \<times> store" where
  "load_hormone_levels st =
     (let st1 = (if hormones_file st = Missing
                 then st\<lparr>hormones_file :=
                        written (write_outcome st HORMONES_FILE) DEFAULT_HORMONES Missing\<rparr>
                 else st)
      in case hormones_file st1 of
           Doc levels \<Rightarrow> (levels, st1)
         | _ \<Rightarrow> (DEFAULT_HORMONES, st1))"

definition save_hormone_levels :: "hormone_record \<Rightarrow> store \<Rightarrow> store" where
  "save_hormone_levels levels st =
     st\<lparr>hormones_file := written (write_outcome st HORMONES_FILE) levels (hormones_file st)\<rparr>"

definition load_mood_weights :: "store \<Rightarrow> mood_weights \<times> store" where
  "load_mood_weights st =
     (let st1 = (if mood_weights_file st = Missing
                 then st\<lparr>mood_weights_file :=
                        written (write_outcome st MOOD_WEIGHTS_FILE) DEFAULT_MOOD_WEIGHTS Missing\<rparr>
                 else st)
      in case mood_weights_file st1 of
           Doc weights \<Rightarrow> (weights, st1)
         | _ \<Rightarrow> (DEFAULT_MOOD_WEIGHTS, st1))"

section \<open>Hormone engine (hormone\_adjuster.py)\<close>

text \<open>The loop over \<open>analysis["hormone_adjustments"].items()\<close>: \<open>hormones[hormone]\<close> is an
  indexing read, which raises \<open>KeyError\<close> for a hormone the loaded record lacks.\<close>

fun apply_adjustments ::
  "(string \<times> real) list \<Rightarrow> real \<Rightarrow> hormone_record \<Rightarrow> py_error + hormone_record" where
  "apply_adjustments [] intensity_multiplier hormones = Inr hormones"
| "apply_adjustments ((hormone, base_adjustment) # rest) intensity_multiplier hormones =
     (case hormones hormone of
        None \<Rightarrow> Inl (KeyError hormone)
      | Some level \<Rightarrow>
          apply_adjustments rest intensity_multiplier
            (hormones(hormone \<mapsto> max 0.0 (min 1.0 (level + base_adjustment * intensity_multiplier)))))"

text \<open>One pass of the natural-decay loop on one level, and on every key of the record.\<close>

definition decay_level :: "real \<Rightarrow> real" where
  "decay_level level =
     (if level > 0.5 then max 0.5 (level - 0.01)
      else if level < 0.5 then min 0.5 (level + 0.01)
      else level)"

definition natural_decay :: "hormone_record \<Rightarrow> hormone_record" where
  "natural_decay hormones = (\<lambda>hormone. map_option decay_level (hormones hormone))"

definition apply_contextual_hormone_adjustments ::
  "string \<Rightarrow> store \<Rightarrow> (py_error + hormone_record) \<times> store" where
  "apply_contextual_hormone_adjustments text st =
     (let analysis = analyze_contextual_sentiment text
      in if hormone_adjustments analysis \<noteq> [] then
           (let (hormones, st1) = load_hormone_levels st
            in case apply_adjustments (hormone_adjustments analysis) (intensity analysis) hormones of
                 Inl e \<Rightarrow> (Inl e, st1)
               | Inr adjusted \<Rightarrow>
                   (let decayed = natural_decay adjusted
                    in (Inr decayed, save_hormone_levels decayed st1)))
         else
           (let (hormones, st1) = load_hormone_levels st in (Inr hormones, st1)))"

text \<open>The legacy events. \<open>raise_level\<close> is \<open>hormones[k] = min(1.0, hormones[k] + d)\<close> and
  \<open>lower_level\<close> is \<open>hormones[k] = max(0.0, hormones[k] - d)\<close>.\<close>

definition raise_level :: "string \<Rightarrow> real \<Rightarrow> hormone_record \<Rightarrow> py_error + hormone_record" where
  "raise_level k d hormones =
     (case hormones k of
        None \<Rightarrow> Inl (KeyError k)
      | Some level \<Rightarrow> Inr (hormones(k \<mapsto> min 1.0 (level + d))))"

definition lower_level :: "string \<Rightarrow> real \<Rightarrow> hormone_record \<Rightarrow> py_error + hormone_record" where
  "lower_level k d hormones =
     (case hormones k of
        None \<Rightarrow> Inl (KeyError k)
      | Some level \<Rightarrow> Inr (hormones(k \<mapsto> max 0.0 (level - d))))"

definition and_then :: "py_error + 'a \<Rightarrow> ('a \<Rightarrow> py_error + 'b) \<Rightarrow> py_error + 'b" where
  "and_then r f = (case r of Inl e \<Rightarrow> Inl e | Inr x \<Rightarrow> f x)"

definition legacy_event :: "string option \<Rightarrow> hormone_record \<Rightarrow> py_error + hormone_record" where
  "legacy_event event hormones =
     (if event = Some ''positive_feedback'' then
        and_then (raise_level ''dopamine'' 0.1 hormones) (raise_level ''serotonin'' 0.05)
      else if event = Some ''stress'' then
        and_then (raise_level ''cortisol'' 0.1 hormones) (lower_level ''serotonin'' 0.05)
      else if event = Some ''social_connection'' then
        and_then (raise_level ''oxytocin'' 0.1 hormones) (raise_level ''dopamine'' 0.05)
      else if event = Some ''isolation'' then
        and_then (lower_level ''oxytocin'' 0.1 hormones) (raise_level ''cortisol'' 0.05)
      else if event = Some ''achievement'' then
        and_then (raise_level ''dopamine'' 0.15 hormones) (raise_level ''serotonin'' 0.1)
      else if event = Some ''disappointment'' then
        and_then (lower_level ''dopamine'' 0.1 hormones) (lower_level ''serotonin'' 0.08)
      else Inr hormones)"

definition adjust_hormones :: "string option \<Rightarrow> store \<Rightarrow> (py_error + hormone_record) \<times> store" where
  "adjust_hormones event st =
     (let (hormones, st1) = load_hormone_levels st
      in case legacy_event event hormones of
           Inl e \<Rightarrow> (Inl e, st1)
         | Inr adjusted \<Rightarrow>
             (let decayed = natural_decay adjusted
              in (Inr decayed, save_hormone_levels decayed st1)))"

section \<open>Mood inference engine (hormone\_adjuster.py)\<close>

text \<open>\<open>dict.get(key, default)\<close>\<close>

definition dict_get :: "('k \<Rightarrow> 'v option) \<Rightarrow> 'k \<Rightarrow> 'v \<Rightarrow> 'v" where
  "dict_get d k dflt = (case d k of None \<Rightarrow> dflt | Some v \<Rightarrow> v)"

text \<open>The mood-weight table and the mood scores are dictionaries whose iteration order
  matters (ties in the ranking are broken by it), so both are association lists in
  insertion order; \<open>mood_scores[mood] = score\<close> is \<open>AList.update\<close>.\<close>

definition mood_score :: "hormone_record \<Rightarrow> (string \<times> real) list \<Rightarrow> real" where
  "mood_score hormone_levels weights =
     fold (\<lambda>(hormone, weight) score. score + dict_get hormone_levels hormone 0.5 * weight) weights 0.0"

definition calculate_mood_scores :: "hormone_record \<Rightarrow> mood_weights \<Rightarrow> (string \<times> real) list" where
  "calculate_mood_scores hormone_levels mood_weights =
     fold (\<lambda>(mood, weights) mood_scores.
             AList.update mood (mood_score hormone_levels weights) mood_scores)
          mood_weights []"

text \<open>\<open>sorted(mood_scores.items(), key=lambda x: abs(x[1]), reverse=True)\<close>: a stable sort,
  descending in the absolute score.\<close>

definition sorted_by_abs_score :: "(string \<times> real) list \<Rightarrow> (string \<times> real) list" where
  "sorted_by_abs_score mood_scores = sort_key (\<lambda>x. - \<bar>snd x\<bar>) mood_scores"

text \<open>\<open>max\<close> over a generator; it raises \<open>ValueError\<close> on an empty one.\<close>

fun py_max :: "real list \<Rightarrow> py_error + real" where
  "py_max [] = Inl ValueError"
| "py_max (x # xs) = Inr (fold max xs x)"

definition hybrid_name :: "string \<Rightarrow> real \<Rightarrow> string \<Rightarrow> real \<Rightarrow> string" where
  "hybrid_name top_mood top_score second_mood second_score =
     (if top_score > 0 \<and> second_score > 0 then second_mood @ ''-'' @ top_mood
      else if top_score < 0 \<and> second_score < 0 then ''conflicted-'' @ top_mood
      else (let pos_mood = (if top_score > 0 then top_mood else second_mood)
            in ''bittersweet-'' @ pos_mood))"

text \<open>The archetype checks and the final defined-state return of
  \<open>detect_undefined_mood_state\<close>.\<close>

definition archetype_or_defined ::
  "hormone_record \<Rightarrow> string \<Rightarrow> real \<Rightarrow> bool \<times> string \<times> real" where
  "archetype_or_defined hormone_levels top_mood top_score =
     (let dopamine = dict_get hormone_levels ''dopamine'' 0.5;
          cortisol = dict_get hormone_levels ''cortisol'' 0.5;
          serotonin = dict_get hormone_levels ''serotonin'' 0.5;
          oxytocin = dict_get hormone_levels ''oxytocin'' 0.5
      in if dopamine > 0.7 \<and> cortisol > 0.7 then (True, ''manic-energy'', (dopamine + cortisol) / 2)
         else if serotonin < 0.3 \<and> oxytocin > 0.7 then
           (True, ''melancholic-affection'', (oxytocin + (1 - serotonin)) / 2)
         else if list_all (\<lambda>level. level > 0.8) [dopamine, cortisol, serotonin, oxytocin] then
           (True, ''overwhelmed'', 0.9)
         else if list_all (\<lambda>level. level < 0.2) [dopamine, cortisol, serotonin, oxytocin] then
           (True, ''numb'', 0.8)
         else (False, top_mood, \<bar>top_score\<bar>))"

definition detect_undefined_mood_state ::
  "(string \<times> real) list \<Rightarrow> hormone_record \<Rightarrow> real \<Rightarrow> py_error + (bool \<times> string \<times> real)" where
  "detect_undefined_mood_state mood_scores hormone_levels threshold =
     (case sorted_by_abs_score mood_scores of
        [] \<Rightarrow> Inl IndexError
      | [(only_mood, only_score)] \<Rightarrow> Inr (False, only_mood, \<bar>only_score\<bar>)
      | (top_mood, top_score) # (second_mood, second_score) # _ \<Rightarrow>
          if \<bar>\<bar>top_score\<bar> - \<bar>second_score\<bar>\<bar> < threshold then
            Inr (True, hybrid_name top_mood top_score second_mood second_score,
                 min 1.0 ((\<bar>top_score\<bar> + \<bar>second_score\<bar>) / 2))
          else
            (case py_max (map (\<lambda>x. \<bar>snd x\<bar>) mood_scores) of
               Inl e \<Rightarrow> Inl e
             | Inr max_abs_score \<Rightarrow>
                 if max_abs_score < 0.2 then Inr (True, ''undefined-neutral'', max_abs_score)
                 else Inr (archetype_or_defined hormone_levels top_mood top_score)))"

text \<open>The random source of \<open>generate_emergent_mood_variations\<close>: the value
  \<open>random.random()\<close> returns and the index \<open>random.choice\<close> draws, reduced into the range
  of the candidate list.\<close>

record rng =
  random_value :: real
  choice_index :: nat

definition emergent_prefixes :: "hormone_record \<Rightarrow> string list" where
  "emergent_prefixes hormone_levels =
     (let dopamine = dict_get hormone_levels ''dopamine'' 0.5;
          cortisol = dict_get hormone_levels ''cortisol'' 0.5;
          serotonin = dict_get hormone_levels ''serotonin'' 0.5;
          oxytocin = dict_get hormone_levels ''oxytocin'' 0.5
      in (if cortisol > 0.6 then [''tense''] else if cortisol < 0.3 then [''relaxed''] else [])
       @ (if dopamine > 0.7 then [''energetic''] else if dopamine < 0.3 then [''lethargic''] else [])
       @ (if oxytocin > 0.7 then [''warm''] else if oxytocin < 0.3 then [''distant''] else [])
       @ (if serotonin > 0.7 then [''balanced''] else if serotonin < 0.3 then [''unstable''] else []))"

definition generate_emergent_mood_variations :: "string \<Rightarrow> hormone_record \<Rightarrow> rng \<Rightarrow> string" where
  "generate_emergent_mood_variations base_mood hormone_levels r =
     (let prefixes = emergent_prefixes hormone_levels
      in if prefixes \<noteq> [] \<and> random_value r > 0.5
         then (prefixes ! (choice_index r mod length prefixes)) @ ''-'' @ base_mood
         else base_mood)"

text \<open>The best-mood loop of \<open>infer_mood_from_hormones\<close>, started at ("neutral", 0.0).\<close>

definition best_mood_of :: "(string \<times> real) list \<Rightarrow> string \<times> real" where
  "best_mood_of mood_scores =
     fold (\<lambda>(mood, score) (best_mood, best_score).
             if \<bar>score\<bar> > \<bar>best_score\<bar> then (mood, score) else (best_mood, best_score))
          mood_scores (''neutral'', 0.0)"

definition infer_mood_from_hormones ::
  "hormone_record \<Rightarrow> mood_weights \<Rightarrow> rng \<Rightarrow> py_error + (string \<times> real)" where
  "infer_mood_from_hormones hormone_levels mood_weights r =
     (let mood_scores = calculate_mood_scores hormone_levels mood_weights
      in case detect_undefined_mood_state mood_scores hormone_levels 0.15 of
           Inl e \<Rightarrow> Inl e
         | Inr (is_undefined, mood_name, level) \<Rightarrow>
             if is_undefined then Inr (mood_name, max 0.0 (min 1.0 level))
             else
               (let (best_mood, best_score) = best_mood_of mood_scores;
                    final_mood = generate_emergent_mood_variations best_mood hormone_levels r
                in Inr (final_mood, max 0.0 (min 1.0 \<bar>best_score\<bar>))))"

definition get_mood_context :: "string \<Rightarrow> real \<Rightarrow> mood_context" where
  "get_mood_context mood_name level =
     \<lparr>ctx_mood = Some mood_name,
      ctx_intensity = Some level,
      ctx_is_hybrid = Some (contains ''-'' mood_name \<and> mood_name \<notin> set [''well-being'', ''self-esteem'']),
      ctx_is_emergent = Some (list_ex (\<lambda>prefix. contains prefix mood_name)
                                [''undefined'', ''manic'', ''melancholic'', ''overwhelmed'', ''numb'']),
      ctx_stability = Some (if level > 0.8 then ''low'' else if level > 0.4 then ''medium'' else ''high'')\<rparr>"

section \<open>Mood recorder (mood\_tracker.py)\<close>

definition load_mood_history :: "store \<Rightarrow> history_entry list \<times> store" where
  "load_mood_history st =
     (case mood_history_file st of
        Missing \<Rightarrow>
          ([], st\<lparr>mood_history_file := written (write_outcome st MOOD_HISTORY_FILE) [] Missing\<rparr>)
      | Malformed \<Rightarrow> ([], st)
      | Doc history \<Rightarrow> (history, st))"

definition save_mood_history :: "history_entry list \<Rightarrow> store \<Rightarrow> store" where
  "save_mood_history history st =
     st\<lparr>mood_history_file :=
          written (write_outcome st MOOD_HISTORY_FILE) history (mood_history_file st)\<rparr>"

text \<open>\<open>history[-100:]\<close> when the list is longer than 100.\<close>

definition keep_last_100 :: "'a list \<Rightarrow> 'a list" where
  "keep_last_100 history = (if length history > 100 then drop (length history - 100) history else history)"

text \<open>One call of \<open>update_mood\<close>. The two readings of \<open>datetime.utcnow()\<close> are inputs:
  \<open>now_snapshot\<close> goes into the snapshot document, \<open>now_entry\<close> into the history entry.\<close>

record update_args =
  new_mood :: string
  arg_intensity :: real
  arg_reason :: string
  hormone_context :: "mood_context option"
  now_snapshot :: string
  now_entry :: string

definition context_of :: "update_args \<Rightarrow> mood_context" where
  "context_of a =
     (case hormone_context a of
        None \<Rightarrow> get_mood_context (new_mood a) (arg_intensity a)
      | Some c \<Rightarrow> c)"

definition wants_snapshot :: "string \<Rightarrow> bool" where
  "wants_snapshot reason =
     (reason \<noteq> [] \<and> (contains ''contextual'' reason \<or> contains ''hormone_event'' reason))"

definition make_history_entry :: "update_args \<Rightarrow> hormone_record option \<Rightarrow> history_entry" where
  "make_history_entry a snapshot =
     (let c = context_of a
      in \<lparr>timestamp = now_entry a,
          he_mood = new_mood a,
          he_intensity = arg_intensity a,
          he_reason = arg_reason a,
          is_hybrid = (case ctx_is_hybrid c of None \<Rightarrow> False | Some b \<Rightarrow> b),
          is_emergent = (case ctx_is_emergent c of None \<Rightarrow> False | Some b \<Rightarrow> b),
          stability = (case ctx_stability c of None \<Rightarrow> ''medium'' | Some s \<Rightarrow> s),
          hormone_snapshot = snapshot\<rparr>)"

definition update_mood :: "update_args \<Rightarrow> store \<Rightarrow> store" where
  "update_mood a st =
     (let mood_data = \<lparr>current_mood = new_mood a,
                       md_intensity = arg_intensity a,
                       md_context = context_of a,
                       last_updated = now_snapshot a\<rparr>;
          st1 = st\<lparr>mood_adjustments_file :=
                     written (write_outcome st MOOD_ADJUSTMENTS_FILE) mood_data
                       (mood_adjustments_file st)\<rparr>
      in if write_outcome st MOOD_ADJUSTMENTS_FILE \<noteq> Write_ok then st1
         else
           (let (history, st2) = load_mood_history st1;
                (snapshot, st3) =
                  (if wants_snapshot (arg_reason a)
                   then (let (levels, s) = load_hormone_levels st2 in (Some levels, s))
                   else (None, st2));
                history = history @ [make_history_entry a snapshot];
                history = keep_last_100 history
            in save_mood_history history st3))"

text \<open>\<open>update_mood_from_hormones\<close>: the clock readings and the random source are inputs.\<close>

definition update_mood_from_hormones ::
  "string \<Rightarrow> rng \<Rightarrow> string \<Rightarrow> string \<Rightarrow> store
     \<Rightarrow> (py_error + (string \<times> real \<times> mood_context)) \<times> store" where
  "update_mood_from_hormones reason r t_snapshot t_entry st =
     (let (hormone_levels, st1) = load_hormone_levels st;
          (mood_weights, st2) = load_mood_weights st1
      in case infer_mood_from_hormones hormone_levels mood_weights r of
           Inl e \<Rightarrow> (Inl e, st2)
         | Inr (mood, level) \<Rightarrow>
             (let context = get_mood_context mood level;
                  st3 = update_mood \<lparr>new_mood = mood, arg_intensity = level, arg_reason = reason,
                                     hormone_context = Some context,
                                     now_snapshot = t_snapshot, now_entry = t_entry\<rparr> st2
              in (Inr (mood, level, context), st3)))"

section \<open>Rule conditions, call sequences and example environments\<close>

text \<open>The conditions of the hybrid rule and of the flat-affect rule, as
  \<open>detect_undefined_mood_state\<close> tests them: the first needs two ranked moods.\<close>

definition hybrid_rule_fires :: "(string \<times> real) list \<Rightarrow> real \<Rightarrow> bool" where
  "hybrid_rule_fires mood_scores threshold =
     (case sorted_by_abs_score mood_scores of
        (top_mood, top_score) # (second_mood, second_score) # _ \<Rightarrow>
          \<bar>\<bar>top_score\<bar> - \<bar>second_score\<bar>\<bar> < threshold
      | _ \<Rightarrow> False)"

definition flat_affect_rule_fires :: "(string \<times> real) list \<Rightarrow> bool" where
  "flat_affect_rule_fires mood_scores =
     (case py_max (map (\<lambda>x. \<bar>snd x\<bar>) mood_scores) of
        Inr max_abs_score \<Rightarrow> max_abs_score < 0.2
      | Inl e \<Rightarrow> False)"

text \<open>Every level of a hormone record lies in [0,1].\<close>

definition levels_in_range :: "hormone_record \<Rightarrow> bool" where
  "levels_in_range h = (\<forall>k v. h k = Some v \<longrightarrow> 0 \<le> v \<and> v \<le> 1)"

text \<open>The hormones each legacy event of \<open>adjust_hormones\<close> indexes, in the order of the
  two assignments of its branch.\<close>

definition legacy_event_hormones :: "(string \<times> string list) list" where
  "legacy_event_hormones =
    [(''positive_feedback'', [''dopamine'', ''serotonin'']),
     (''stress'', [''cortisol'', ''serotonin'']),
     (''social_connection'', [''oxytocin'', ''dopamine'']),
     (''isolation'', [''oxytocin'', ''cortisol'']),
     (''achievement'', [''dopamine'', ''serotonin'']),
     (''disappointment'', [''dopamine'', ''serotonin''])]"

text \<open>\<open>n\<close> calls of \<open>adjust_hormones(event)\<close> in a row, each on the store the previous one
  left.\<close>

fun repeat_adjust_hormones :: "nat \<Rightarrow> string option \<Rightarrow> store \<Rightarrow> store" where
  "repeat_adjust_hormones 0 event st = st"
| "repeat_adjust_hormones (Suc n) event st =
     repeat_adjust_hormones n event (snd (adjust_hormones event st))"

text \<open>A sequence of \<open>update_mood\<close> calls, oldest first.\<close>

fun update_moods :: "update_args list \<Rightarrow> store \<Rightarrow> store" where
  "update_moods [] st = st"
| "update_moods (a # rest) st = update_moods rest (update_mood a st)"

text \<open>The history entry a call appends: the hormone snapshot is the record
  \<open>load_hormone_levels\<close> returns, attached when the reason asks for it.\<close>

definition entry_of_call :: "store \<Rightarrow> update_args \<Rightarrow> history_entry" where
  "entry_of_call st a =
     make_history_entry a
       (if wants_snapshot (arg_reason a) then Some (fst (load_hormone_levels st)) else None)"

text \<open>Environments: every write succeeds; every write succeeds but that of one file, which
  fails before the file is opened; the snapshot write fails after the file is opened.\<close>

definition all_writable :: "file_id \<Rightarrow> write_result" where
  "all_writable f = Write_ok"

definition snapshot_not_writable :: "file_id \<Rightarrow> write_result" where
  "snapshot_not_writable f = (if f = MOOD_ADJUSTMENTS_FILE then Open_fails else Write_ok)"

definition snapshot_dump_fails :: "file_id \<Rightarrow> write_result" where
  "snapshot_dump_fails f = (if f = MOOD_ADJUSTMENTS_FILE then Dump_fails else Write_ok)"

definition history_not_writable :: "file_id \<Rightarrow> write_result" where
  "history_not_writable f = (if f = MOOD_HISTORY_FILE then Open_fails else Write_ok)"

definition hormones_not_writable :: "file_id \<Rightarrow> write_result" where
  "hormones_not_writable f = (if f = HORMONES_FILE then Open_fails else Write_ok)"

definition empty_store :: "(file_id \<Rightarrow> write_result) \<Rightarrow> store" where
  "empty_store w =
     \<lparr>hormones_file = Missing, mood_weights_file = Missing, mood_adjustments_file = Missing,
      mood_history_file = Missing, write_outcome = w\<rparr>"

definition plain_call :: "string \<Rightarrow> update_args" where
  "plain_call t =
     \<lparr>new_mood = ''cheerful'', arg_intensity = 0.5, arg_reason = [], hormone_context = None,
      now_snapshot = t, now_entry = t\<rparr>"

section \<open>Evaluation of the string operations\<close>

lemmas string_eval =
  lower_def lower_char_def upper_letters_def lower_letters_def strip_def is_space_def
  split_def isupper_def

lemmas intensity_eval =
  calculate_contextual_intensity_def exclamation_factor_def caps_factor_def profanity_factor_def
  repetition_factor_def repetition_fires_def profanity_words_def Let_def

section \<open>Sentiment analyzer: the scenario text\<close>

text \<open>Every text that contains "love you" contains " you", the first phrase of the first
  category, so the strong\_positive phrases "love you" and "i love you" never win.\<close>

lemma contains_append: "contains p s \<Longrightarrow> contains p (r @ s)"
  by (induction r) auto

lemma contains_prefix: "prefix p s \<Longrightarrow> contains p s"
  by (cases s) auto

lemma love_you_contains_you: "contains ''love you'' s \<Longrightarrow> contains '' you'' s"
proof (induction s)
  case Nil
  then show ?case by simp
next
  case (Cons c cs)
  show ?case
  proof (cases "prefix ''love you'' (c # cs)")
    case True
    then obtain r where r: "c # cs = ''love you'' @ r" by (auto simp: prefix_def)
    have "contains '' you'' ('' you'' @ r)" by (rule contains_prefix) simp
    then have "contains '' you'' (''love'' @ '' you'' @ r)" by (rule contains_append)
    then show ?thesis using r by simp
  next
    case False
    then have "contains ''love you'' cs" using Cons.prems by auto
    then show ?thesis using Cons.IH by simp
  qed
qed

lemma you_is_strong_negative:
  assumes "contains '' you'' (strip (lower t))"
  shows "emotion_type (analyze_contextual_sentiment t) = ''strong_negative''
       \<and> triggered_by (analyze_contextual_sentiment t) = '' you''"
  using assms by (simp add: analyze_contextual_sentiment_def EMOTION_PATTERNS_def)

lemma love_you_never_wins:
  "contains ''love you'' (strip (lower t)) \<Longrightarrow>
     emotion_type (analyze_contextual_sentiment t) = ''strong_negative''
     \<and> triggered_by (analyze_contextual_sentiment t) = '' you''"
  by (rule you_is_strong_negative) (rule love_you_contains_you)

text \<open>
  C1. The categories are tried in the order strong\_negative, strong\_positive,
  moderate\_negative, moderate\_positive, affectionate, playful, offensive, and the first
  category with a matching phrase wins. For the text "I love you so much!!!" the claim
  expects strong\_positive through "love you". The first category lists the phrase " you"
  (a blank followed by "you"), which occurs in the normalised text, so the analyzer
  returns strong\_negative triggered by " you", by pattern match, with the intensity
  0.8 * 1.3 clamped to 1.
\<close>

theorem analyze_love_you_is_strong_negative:
  "map fst EMOTION_PATTERNS =
     [''strong_negative'', ''strong_positive'', ''moderate_negative'', ''moderate_positive'',
      ''affectionate'', ''playful'', ''offensive'']
   \<and> strip (lower ''I love you so much!!!'') = ''i love you so much!!!''
   \<and> contains ''love you'' (strip (lower ''I love you so much!!!''))
   \<and> analyze_contextual_sentiment ''I love you so much!!!'' =
       \<lparr>emotion_type = ''strong_negative'', intensity = 1,
        hormone_adjustments = [(''cortisol'', 0.15), (''serotonin'', -0.1), (''dopamine'', -0.05)],
        confidence = 0.9, triggered_by = '' you'', analysis_method = ''pattern_match''\<rparr>"
  by (simp add: analyze_contextual_sentiment_def EMOTION_PATTERNS_def string_eval intensity_eval)

section \<open>Sentiment analyzer: the repetition modifier\<close>

text \<open>The repetition test in whole numbers: more than one token, and the distinct tokens
  strictly fewer than 70 percent of all tokens.\<close>

lemma repetition_fires_iff:
  "repetition_fires t =
     (1 < length (split (lower t))
      \<and> 10 * length (remdups (split (lower t))) < 7 * length (split (lower t)))"
proof -
  have "\<And>d n :: nat. (real d < real n * 0.7) = (10 * d < 7 * n)"
  proof -
    fix d n :: nat
    have "(real d < real n * 0.7) = (real (10 * d) < real (7 * n))" by (simp add: mult.commute)
    then show "(real d < real n * 0.7) = (10 * d < 7 * n)" by (simp only: of_nat_less_iff)
  qed
  then show ?thesis by (simp add: repetition_fires_def Let_def)
qed

text \<open>
  C7. The text "a a a a b c d e f g" has ten tokens, seven of them distinct, so the
  repeated tokens are exactly 30 percent of the total. The repetition test is the strict
  comparison \<open>len(set(words)) < len(words) * 0.7\<close>, here 7 < 7, which is false: the
  intensity is not multiplied by 1.15 and a base intensity of 0.5 comes back as 0.5.
  With one more repetition, "a a a a a b c d e f", the test is 6 < 7 and the result is
  0.5 * 1.15.
\<close>

theorem repetition_at_exactly_30_percent:
  "length (split (lower ''a a a a b c d e f g'')) = 10
   \<and> length (remdups (split (lower ''a a a a b c d e f g''))) = 7
   \<and> \<not> repetition_fires ''a a a a b c d e f g''
   \<and> calculate_contextual_intensity ''a a a a b c d e f g'' 0.5 = 0.5
   \<and> calculate_contextual_intensity ''a a a a a b c d e f'' 0.5 = 0.5 * 1.15"
  by (simp add: string_eval intensity_eval)

text \<open>The four modifiers compose by multiplication, with one clamp at the end.\<close>

lemma calculate_contextual_intensity_product:
  "calculate_contextual_intensity text base =
     min 1 (base * exclamation_factor text * caps_factor text * profanity_factor text
                 * repetition_factor text)"
  by (simp add: calculate_contextual_intensity_def Let_def)

section \<open>Mood inference: ranking and the hybrid rule\<close>

lemma sorted_by_abs_score_mset: "mset (sorted_by_abs_score ms) = mset ms"
  by (simp add: sorted_by_abs_score_def)

lemma sorted_by_abs_score_length: "length (sorted_by_abs_score ms) = length ms"
  by (simp add: sorted_by_abs_score_def)

lemma sorted_by_abs_score_sorted:
  "sorted (map (\<lambda>x. - \<bar>snd x\<bar>) (sorted_by_abs_score ms))"
  by (simp add: sorted_by_abs_score_def)

lemma sorted_by_abs_score_Nil: "(sorted_by_abs_score ms = []) = (ms = [])"
  by (metis sorted_by_abs_score_def length_0_conv length_sort)

lemma top_two:
  assumes "2 \<le> length ms"
  obtains tm ts sm ss rest where "sorted_by_abs_score ms = (tm, ts) # (sm, ss) # rest"
proof -
  have "2 \<le> length (sorted_by_abs_score ms)"
    using assms by (simp add: sorted_by_abs_score_length)
  then obtain a b rest where "sorted_by_abs_score ms = a # b # rest"
    by (cases "sorted_by_abs_score ms"; cases "tl (sorted_by_abs_score ms)") auto
  then show ?thesis using that by (cases a; cases b) auto
qed

lemma top_two_order:
  assumes "sorted_by_abs_score ms = (tm, ts) # (sm, ss) # rest"
  shows "\<bar>ss\<bar> \<le> \<bar>ts\<bar> \<and> (\<forall>x \<in> set rest. \<bar>snd x\<bar> \<le> \<bar>ss\<bar>)"
  using sorted_by_abs_score_sorted [of ms] assms by auto

lemma py_max_nonempty: "xs \<noteq> [] \<Longrightarrow> \<exists>m. py_max xs = Inr m"
  by (cases xs) auto

lemma detect_hybrid:
  assumes "sorted_by_abs_score ms = (tm, ts) # (sm, ss) # rest"
    and "\<bar>\<bar>ts\<bar> - \<bar>ss\<bar>\<bar> < th"
  shows "detect_undefined_mood_state ms hl th =
     Inr (True, hybrid_name tm ts sm ss, min 1 ((\<bar>ts\<bar> + \<bar>ss\<bar>) / 2))"
  using assms by (simp add: detect_undefined_mood_state_def)

lemmas scores_eval = calculate_mood_scores_def mood_score_def dict_get_def AList.update.simps

text \<open>
  C2. For a mood-score table with at least two moods, the ranking puts the two largest
  absolute scores first (it is a permutation of the table, the second is at most the top
  and every other one is at most the second). Whenever these two absolute scores differ
  by less than the threshold (0.15 by default), \<open>detect_undefined_mood_state\<close> reports an
  undefined state named "second-top" if both scores are positive, "conflicted-top" if
  both are negative, and "bittersweet-" followed by the positive one if the signs differ,
  with intensity the average of the two absolute scores, capped at 1 (and so within
  [0,1]). In particular the scores 0.40 and 0.33 give "second-top" with intensity 0.365.
\<close>

theorem hybrid_rule_on_two_largest:
  assumes "2 \<le> length mood_scores"
  shows "\<exists>top_mood top_score second_mood second_score rest.
     sorted_by_abs_score mood_scores = (top_mood, top_score) # (second_mood, second_score) # rest
   \<and> mset (sorted_by_abs_score mood_scores) = mset mood_scores
   \<and> \<bar>second_score\<bar> \<le> \<bar>top_score\<bar> \<and> (\<forall>x \<in> set rest. \<bar>snd x\<bar> \<le> \<bar>second_score\<bar>)
   \<and> (\<bar>\<bar>top_score\<bar> - \<bar>second_score\<bar>\<bar> < threshold \<longrightarrow>
        (\<exists>name level.
           detect_undefined_mood_state mood_scores hormone_levels threshold = Inr (True, name, level)
         \<and> level = min 1 ((\<bar>top_score\<bar> + \<bar>second_score\<bar>) / 2) \<and> 0 \<le> level \<and> level \<le> 1
         \<and> (0 < top_score \<and> 0 < second_score \<longrightarrow> name = second_mood @ ''-'' @ top_mood)
         \<and> (top_score < 0 \<and> second_score < 0 \<longrightarrow> name = ''conflicted-'' @ top_mood)
         \<and> (0 < top_score \<and> second_score < 0 \<longrightarrow> name = ''bittersweet-'' @ top_mood)
         \<and> (top_score < 0 \<and> 0 < second_score \<longrightarrow> name = ''bittersweet-'' @ second_mood)))
   \<and> detect_undefined_mood_state [(m1, 0.40), (m2, 0.33)] hormone_levels 0.15
        = Inr (True, m2 @ ''-'' @ m1, 0.365)"
proof -
  obtain tm ts sm ss rest where srt: "sorted_by_abs_score mood_scores = (tm, ts) # (sm, ss) # rest"
    using assms by (rule top_two)
  have ord: "\<bar>ss\<bar> \<le> \<bar>ts\<bar> \<and> (\<forall>x \<in> set rest. \<bar>snd x\<bar> \<le> \<bar>ss\<bar>)"
    using srt by (rule top_two_order)
  have hyb: "\<bar>\<bar>ts\<bar> - \<bar>ss\<bar>\<bar> < threshold \<longrightarrow>
        (\<exists>name level.
           detect_undefined_mood_state mood_scores hormone_levels threshold = Inr (True, name, level)
         \<and> level = min 1 ((\<bar>ts\<bar> + \<bar>ss\<bar>) / 2) \<and> 0 \<le> level \<and> level \<le> 1
         \<and> (0 < ts \<and> 0 < ss \<longrightarrow> name = sm @ ''-'' @ tm)
         \<and> (ts < 0 \<and> ss < 0 \<longrightarrow> name = ''conflicted-'' @ tm)
         \<and> (0 < ts \<and> ss < 0 \<longrightarrow> name = ''bittersweet-'' @ tm)
         \<and> (ts < 0 \<and> 0 < ss \<longrightarrow> name = ''bittersweet-'' @ sm))"
  proof
    assume close: "\<bar>\<bar>ts\<bar> - \<bar>ss\<bar>\<bar> < threshold"
    have "detect_undefined_mood_state mood_scores hormone_levels threshold =
       Inr (True, hybrid_name tm ts sm ss, min 1 ((\<bar>ts\<bar> + \<bar>ss\<bar>) / 2))"
      using srt close by (rule detect_hybrid)
    then show "\<exists>name level.
           detect_undefined_mood_state mood_scores hormone_levels threshold = Inr (True, name, level)
         \<and> level = min 1 ((\<bar>ts\<bar> + \<bar>ss\<bar>) / 2) \<and> 0 \<le> level \<and> level \<le> 1
         \<and> (0 < ts \<and> 0 < ss \<longrightarrow> name = sm @ ''-'' @ tm)
         \<and> (ts < 0 \<and> ss < 0 \<longrightarrow> name = ''conflicted-'' @ tm)
         \<and> (0 < ts \<and> ss < 0 \<longrightarrow> name = ''bittersweet-'' @ tm)
         \<and> (ts < 0 \<and> 0 < ss \<longrightarrow> name = ''bittersweet-'' @ sm)"
      by (simp add: hybrid_name_def)
  qed
  have ex: "detect_undefined_mood_state [(m1, 0.40), (m2, 0.33)] hormone_levels 0.15
        = Inr (True, m2 @ ''-'' @ m1, 0.365)"
    by (simp add: detect_undefined_mood_state_def sorted_by_abs_score_def hybrid_name_def)
  show ?thesis
    using srt ord hyb ex sorted_by_abs_score_mset [of mood_scores] by blast
qed

theorem hybrid_rule_witness:
  "2 \<le> length [(''serene'', 0.1 :: real), (''excited'', -0.33), (''cheerful'', 0.40)]
   \<and> sorted_by_abs_score [(''serene'', 0.1), (''excited'', -0.33), (''cheerful'', 0.40)]
        = [(''cheerful'', 0.40), (''excited'', -0.33), (''serene'', 0.1)]
   \<and> detect_undefined_mood_state [(''serene'', 0.1), (''excited'', -0.33), (''cheerful'', 0.40)]
        DEFAULT_HORMONES 0.15 = Inr (True, ''bittersweet-cheerful'', 0.365)"
  using hybrid_rule_on_two_largest
    [of "[(''serene'', 0.1), (''excited'', -0.33), (''cheerful'', 0.40)]" "0.15" DEFAULT_HORMONES]
  by (simp add: detect_undefined_mood_state_def sorted_by_abs_score_def hybrid_name_def)

section \<open>Mood inference: the manic-energy archetype\<close>

lemma detect_past_hybrid_and_flat:
  assumes "sorted_by_abs_score ms = (tm, ts) # (sm, ss) # rest"
    and "\<not> hybrid_rule_fires ms th" and "\<not> flat_affect_rule_fires ms"
  shows "detect_undefined_mood_state ms hl th = Inr (archetype_or_defined hl tm ts)"
proof -
  have "ms \<noteq> []" using assms(1) sorted_by_abs_score_Nil [of ms] by auto
  then obtain m where m: "py_max (map (\<lambda>x. \<bar>snd x\<bar>) ms) = Inr m"
    using py_max_nonempty [of "map (\<lambda>x. \<bar>snd x\<bar>) ms"] by auto
  have "\<not> m < 0.2" using assms(3) m by (simp add: flat_affect_rule_fires_def)
  moreover have "\<not> \<bar>\<bar>ts\<bar> - \<bar>ss\<bar>\<bar> < th" using assms(1,2) by (simp add: hybrid_rule_fires_def)
  ultimately show ?thesis using assms(1) m by (simp add: detect_undefined_mood_state_def)
qed

text \<open>
  C3, as the claim states it, fails for a table with a single mood: there the function
  returns that mood as a defined state before any rule is looked at. With the weight table
  \<open>{"excited": {"dopamine": 0.8, "cortisol": 0.2}}\<close> and the record of the scenario the only
  score is 0.75; neither the hybrid rule nor the flat-affect rule fires, dopamine and
  cortisol are both 0.75, and the result is (False, "excited", 0.75), not "manic-energy".
\<close>

theorem manic_energy_single_mood_counterexample:
  "map_of [(''dopamine'', 0.75), (''cortisol'', 0.75), (''serotonin'', 0.5), (''oxytocin'', 0.5)]
      ''dopamine'' = Some (0.75 :: real)
   \<and> map_of [(''dopamine'', 0.75), (''cortisol'', 0.75), (''serotonin'', 0.5), (''oxytocin'', 0.5)]
      ''cortisol'' = Some (0.75 :: real)
   \<and> (0.75 :: real) > 0.7
   \<and> calculate_mood_scores
        (map_of [(''dopamine'', 0.75), (''cortisol'', 0.75), (''serotonin'', 0.5), (''oxytocin'', 0.5)])
        [(''excited'', [(''dopamine'', 0.8), (''cortisol'', 0.2)])] = [(''excited'', 0.75)]
   \<and> \<not> hybrid_rule_fires [(''excited'', 0.75)] 0.15
   \<and> \<not> flat_affect_rule_fires [(''excited'', 0.75)]
   \<and> detect_undefined_mood_state [(''excited'', 0.75)]
        (map_of [(''dopamine'', 0.75), (''cortisol'', 0.75), (''serotonin'', 0.5), (''oxytocin'', 0.5)])
        0.15 = Inr (False, ''excited'', 0.75)
   \<and> detect_undefined_mood_state [(''excited'', 0.75)]
        (map_of [(''dopamine'', 0.75), (''cortisol'', 0.75), (''serotonin'', 0.5), (''oxytocin'', 0.5)])
        0.15 \<noteq> Inr (True, ''manic-energy'', (0.75 + 0.75) / 2)"
  by (simp add: scores_eval hybrid_rule_fires_def flat_affect_rule_fires_def sorted_by_abs_score_def
      detect_undefined_mood_state_def)

text \<open>
  C3, amended. For every mood-score table with at least two moods and every hormone
  record with dopamine > 0.7 and cortisol > 0.7, when neither the hybrid rule nor the
  flat-affect rule fires, \<open>detect_undefined_mood_state\<close> returns the archetype label
  "manic-energy" with intensity the mean of dopamine and cortisol.
\<close>

theorem manic_energy_archetype:
  assumes "2 \<le> length mood_scores"
    and "hormone_levels ''dopamine'' = Some dopamine" and "hormone_levels ''cortisol'' = Some cortisol"
    and "dopamine > 0.7" and "cortisol > 0.7"
    and "\<not> hybrid_rule_fires mood_scores threshold" and "\<not> flat_affect_rule_fires mood_scores"
  shows "detect_undefined_mood_state mood_scores hormone_levels threshold =
           Inr (True, ''manic-energy'', (dopamine + cortisol) / 2)"
proof -
  obtain tm ts sm ss rest where srt: "sorted_by_abs_score mood_scores = (tm, ts) # (sm, ss) # rest"
    using assms(1) by (rule top_two)
  have "detect_undefined_mood_state mood_scores hormone_levels threshold =
          Inr (archetype_or_defined hormone_levels tm ts)"
    using srt assms(6,7) by (rule detect_past_hybrid_and_flat)
  then show ?thesis using assms(2-5) by (simp add: archetype_or_defined_def dict_get_def)
qed

text \<open>The scenario record with a two-mood weight table whose scores are 0.75 and 0.25.\<close>

theorem manic_energy_archetype_witness:
  "calculate_mood_scores
     (map_of [(''dopamine'', 0.75), (''cortisol'', 0.75), (''serotonin'', 0.5), (''oxytocin'', 0.5)])
     [(''excited'', [(''dopamine'', 1.0)]), (''serene'', [(''serotonin'', 0.5)])]
     = [(''excited'', 0.75), (''serene'', 0.25)]
   \<and> detect_undefined_mood_state
     (calculate_mood_scores
        (map_of [(''dopamine'', 0.75), (''cortisol'', 0.75), (''serotonin'', 0.5), (''oxytocin'', 0.5)])
        [(''excited'', [(''dopamine'', 1.0)]), (''serene'', [(''serotonin'', 0.5)])])
     (map_of [(''dopamine'', 0.75), (''cortisol'', 0.75), (''serotonin'', 0.5), (''oxytocin'', 0.5)])
     0.15 = Inr (True, ''manic-energy'', 0.75)"
  using manic_energy_archetype
    [of "calculate_mood_scores
        (map_of [(''dopamine'', 0.75), (''cortisol'', 0.75), (''serotonin'', 0.5), (''oxytocin'', 0.5)])
        [(''excited'', [(''dopamine'', 1.0)]), (''serene'', [(''serotonin'', 0.5)])]"
        "map_of [(''dopamine'', 0.75), (''cortisol'', 0.75), (''serotonin'', 0.5), (''oxytocin'', 0.5)]"
        "0.75" "0.75" "0.15"]
  by (simp add: scores_eval hybrid_rule_fires_def flat_affect_rule_fires_def sorted_by_abs_score_def)

text \<open>With the default weight table the scenario record is a hybrid state instead: the two
  largest scores are 0.75 (excited) and 0.675 (cheerful).\<close>

lemma scenario_record_with_default_table:
  "detect_undefined_mood_state
     (calculate_mood_scores
        (map_of [(''dopamine'', 0.75), (''cortisol'', 0.75), (''serotonin'', 0.5), (''oxytocin'', 0.5)])
        DEFAULT_MOOD_WEIGHTS)
     (map_of [(''dopamine'', 0.75), (''cortisol'', 0.75), (''serotonin'', 0.5), (''oxytocin'', 0.5)])
     0.15 = Inr (True, ''cheerful-excited'', 0.7125)"
  by (simp add: scores_eval DEFAULT_MOOD_WEIGHTS_def sorted_by_abs_score_def
      detect_undefined_mood_state_def hybrid_name_def)

section \<open>Mood inference: the empty mood-weight table\<close>

lemma fold_update_Nil:
  "(fold (\<lambda>(mood, weights) mood_scores. AList.update mood (g weights) mood_scores) mw acc = [])
     = (mw = [] \<and> acc = [])"
proof (induction mw arbitrary: acc)
  case Nil
  then show ?case by simp
next
  case (Cons a mw)
  obtain mood weights where a: "a = (mood, weights)" by (cases a)
  have "AList.update mood (g weights) acc \<noteq> []" by (cases acc) auto
  then show ?case using Cons.IH [of "AList.update mood (g weights) acc"] a by simp
qed

lemma calculate_mood_scores_Nil: "(calculate_mood_scores hl mw = []) = (mw = [])"
  unfolding calculate_mood_scores_def using fold_update_Nil [of "mood_score hl" mw "[]"] by simp

lemma detect_returns_iff: "(\<exists>res. detect_undefined_mood_state ms hl th = Inr res) = (ms \<noteq> [])"
proof (cases "sorted_by_abs_score ms")
  case Nil
  then show ?thesis using sorted_by_abs_score_Nil [of ms] by (simp add: detect_undefined_mood_state_def)
next
  case (Cons a rest)
  then have ne: "ms \<noteq> []" using sorted_by_abs_score_Nil [of ms] by auto
  then obtain m where m: "py_max (map (\<lambda>x. \<bar>snd x\<bar>) ms) = Inr m"
    using py_max_nonempty [of "map (\<lambda>x. \<bar>snd x\<bar>) ms"] by auto
  show ?thesis
    using Cons ne m
    by (cases a; cases rest)
       (auto simp: detect_undefined_mood_state_def simp del: split_paired_Ex split: prod.splits)
qed

lemma detect_IndexError_iff: "(detect_undefined_mood_state ms hl th = Inl IndexError) = (ms = [])"
proof (cases "sorted_by_abs_score ms")
  case Nil
  then show ?thesis using sorted_by_abs_score_Nil [of ms] by (simp add: detect_undefined_mood_state_def)
next
  case (Cons a rest)
  then have ne: "ms \<noteq> []" using sorted_by_abs_score_Nil [of ms] by auto
  then obtain res where "detect_undefined_mood_state ms hl th = Inr res"
    using detect_returns_iff [of ms hl th] by auto
  then show ?thesis using ne by simp
qed

lemma infer_returns_iff: "(\<exists>res. infer_mood_from_hormones hl mw r = Inr res) = (mw \<noteq> [])"
proof (cases "mw = []")
  case True
  then show ?thesis
    by (simp add: infer_mood_from_hormones_def calculate_mood_scores_def detect_undefined_mood_state_def
        sorted_by_abs_score_def)
next
  case False
  then have "calculate_mood_scores hl mw \<noteq> []" by (simp add: calculate_mood_scores_Nil)
  then obtain res where "detect_undefined_mood_state (calculate_mood_scores hl mw) hl 0.15 = Inr res"
    using detect_returns_iff [of "calculate_mood_scores hl mw" hl "0.15"] by auto
  then show ?thesis using False
    by (cases res) (auto simp: infer_mood_from_hormones_def Let_def split: prod.splits)
qed

text \<open>
  C9. \<open>detect_undefined_mood_state\<close> returns a result exactly when the mood-score table is
  not empty, and \<open>infer_mood_from_hormones\<close> exactly when the mood-weight table is not
  empty. For an empty weight table the score table is empty, the ranking is empty, and
  reading its first element raises \<open>IndexError\<close>, which \<open>infer_mood_from_hormones\<close> passes
  on; a single mood is returned as a defined state.
\<close>

theorem detect_total_only_for_nonempty_table:
  "calculate_mood_scores hormone_levels [] = []
   \<and> detect_undefined_mood_state [] hormone_levels threshold = Inl IndexError
   \<and> infer_mood_from_hormones hormone_levels [] r = Inl IndexError
   \<and> detect_undefined_mood_state [(mood, score)] hormone_levels threshold = Inr (False, mood, \<bar>score\<bar>)
   \<and> ((\<exists>res. detect_undefined_mood_state mood_scores hormone_levels threshold = Inr res)
        = (mood_scores \<noteq> []))
   \<and> ((detect_undefined_mood_state mood_scores hormone_levels threshold = Inl IndexError)
        = (mood_scores = []))
   \<and> ((\<exists>res. infer_mood_from_hormones hormone_levels mood_weights r = Inr res)
        = (mood_weights \<noteq> []))"
proof -
  have a: "calculate_mood_scores hormone_levels [] = []" by (simp add: calculate_mood_scores_def)
  have b: "detect_undefined_mood_state [] hormone_levels threshold = Inl IndexError"
    by (simp add: detect_undefined_mood_state_def sorted_by_abs_score_def)
  have c: "infer_mood_from_hormones hormone_levels [] r = Inl IndexError"
    by (simp add: infer_mood_from_hormones_def a detect_undefined_mood_state_def sorted_by_abs_score_def)
  have d: "detect_undefined_mood_state [(mood, score)] hormone_levels threshold = Inr (False, mood, \<bar>score\<bar>)"
    by (simp add: detect_undefined_mood_state_def sorted_by_abs_score_def)
  show ?thesis
    using a b c d detect_returns_iff [of mood_scores hormone_levels threshold]
      detect_IndexError_iff [of mood_scores hormone_levels threshold]
      infer_returns_iff [of hormone_levels mood_weights r]
    by blast
qed

theorem detect_total_only_for_nonempty_table_witness:
  "infer_mood_from_hormones DEFAULT_HORMONES [] \<lparr>random_value = 0.9, choice_index = 0\<rparr> = Inl IndexError
   \<and> (\<exists>res. infer_mood_from_hormones DEFAULT_HORMONES DEFAULT_MOOD_WEIGHTS
               \<lparr>random_value = 0.9, choice_index = 0\<rparr> = Inr res)"
  using detect_total_only_for_nonempty_table
    [of DEFAULT_HORMONES "0.15" "\<lparr>random_value = 0.9, choice_index = 0\<rparr>" "''m''" 0 "[]"
        DEFAULT_MOOD_WEIGHTS]
  by (simp add: DEFAULT_MOOD_WEIGHTS_def)

section \<open>Hormone engine: homeostatic decay\<close>

lemma decay_level_half: "decay_level 0.5 = 0.5"
  by (simp add: decay_level_def)

lemma decay_level_dist: "\<bar>decay_level v - 0.5\<bar> = max 0 (\<bar>v - 0.5\<bar> - 0.01)"
  by (simp add: decay_level_def max_def min_def abs_if)

lemma decay_level_above: "0.5 \<le> v \<Longrightarrow> 0.5 \<le> decay_level v \<and> decay_level v \<le> v"
  by (simp add: decay_level_def max_def min_def)

lemma decay_level_below: "v \<le> 0.5 \<Longrightarrow> v \<le> decay_level v \<and> decay_level v \<le> 0.5"
  by (simp add: decay_level_def max_def min_def)

lemma decay_level_range: "0 \<le> v \<Longrightarrow> v \<le> 1 \<Longrightarrow> 0 \<le> decay_level v \<and> decay_level v \<le> 1"
  by (simp add: decay_level_def max_def min_def)

lemma decay_pow_dist: "\<bar>(decay_level ^^ n) v - 0.5\<bar> = max 0 (\<bar>v - 0.5\<bar> - 0.01 * real n)"
proof (induction n)
  case 0
  then show ?case by simp
next
  case (Suc n)
  have "\<bar>(decay_level ^^ Suc n) v - 0.5\<bar> = max 0 (\<bar>(decay_level ^^ n) v - 0.5\<bar> - 0.01)"
    using decay_level_dist [of "(decay_level ^^ n) v"] by simp
  also have "\<dots> = max 0 (max 0 (\<bar>v - 0.5\<bar> - 0.01 * real n) - 0.01)"
    by (simp only: Suc.IH)
  also have "\<dots> = max 0 (\<bar>v - 0.5\<bar> - 0.01 * real (Suc n))"
    by (simp add: max_def algebra_simps)
  finally show ?case .
qed

lemma decay_pow_above:
  "0.5 \<le> v \<Longrightarrow> 0.5 \<le> (decay_level ^^ n) v \<and> (decay_level ^^ Suc n) v \<le> (decay_level ^^ n) v"
proof (induction n)
  case 0
  then show ?case using decay_level_above [of v] by simp
next
  case (Suc n)
  then have "0.5 \<le> (decay_level ^^ n) v" by simp
  then have a: "0.5 \<le> (decay_level ^^ Suc n) v"
    using decay_level_above [of "(decay_level ^^ n) v"] by simp
  then show ?case using decay_level_above [of "(decay_level ^^ Suc n) v"] by simp
qed

lemma decay_pow_below:
  "v \<le> 0.5 \<Longrightarrow> (decay_level ^^ n) v \<le> 0.5 \<and> (decay_level ^^ n) v \<le> (decay_level ^^ Suc n) v"
proof (induction n)
  case 0
  then show ?case using decay_level_below [of v] by simp
next
  case (Suc n)
  then have "(decay_level ^^ n) v \<le> 0.5" by simp
  then have a: "(decay_level ^^ Suc n) v \<le> 0.5"
    using decay_level_below [of "(decay_level ^^ n) v"] by simp
  then show ?case using decay_level_below [of "(decay_level ^^ Suc n) v"] by simp
qed

lemma decay_pow_converged: "\<bar>v - 0.5\<bar> \<le> 0.01 * real n \<Longrightarrow> (decay_level ^^ n) v = 0.5"
proof -
  assume "\<bar>v - 0.5\<bar> \<le> 0.01 * real n"
  then have "max 0 (\<bar>v - 0.5\<bar> - 0.01 * real n) = 0" by (simp add: max_def)
  then have "\<bar>(decay_level ^^ n) v - 0.5\<bar> = 0" using decay_pow_dist [of n v] by simp
  then show ?thesis by simp
qed

lemma load_hormone_levels_writable:
  "write_outcome (snd (load_hormone_levels st)) = write_outcome st"
  by (simp add: load_hormone_levels_def Let_def split: document.splits)

lemma load_after_save:
  "writable st HORMONES_FILE \<Longrightarrow> fst (load_hormone_levels (save_hormone_levels h st)) = h"
  by (simp add: load_hormone_levels_def save_hormone_levels_def writable_def written_def Let_def)

lemma save_hormone_levels_writable:
  "write_outcome (save_hormone_levels h st) = write_outcome st"
  by (simp add: save_hormone_levels_def)

lemma legacy_event_unknown:
  "event \<notin> Some ` fst ` set legacy_event_hormones \<Longrightarrow> legacy_event event h = Inr h"
  by (auto simp: legacy_event_def legacy_event_hormones_def)

lemma adjust_hormones_unknown:
  assumes "event \<notin> Some ` fst ` set legacy_event_hormones"
  shows "adjust_hormones event st =
     (Inr (natural_decay (fst (load_hormone_levels st))),
      save_hormone_levels (natural_decay (fst (load_hormone_levels st))) (snd (load_hormone_levels st)))"
  using legacy_event_unknown [OF assms] by (simp add: adjust_hormones_def Let_def split: prod.splits)

lemma natural_decay_pow: "(natural_decay ^^ n) h = (\<lambda>k. map_option (decay_level ^^ n) (h k))"
proof (induction n)
  case 0
  then show ?case by (simp add: option.map_ident)
next
  case (Suc n)
  then show ?case by (auto simp: natural_decay_def option.map_comp comp_def)
qed

lemma repeat_adjust_unknown:
  assumes "event \<notin> Some ` fst ` set legacy_event_hormones" and "writable st HORMONES_FILE"
  shows "writable (repeat_adjust_hormones n event st) HORMONES_FILE
    \<and> fst (load_hormone_levels (repeat_adjust_hormones n event st))
       = (natural_decay ^^ n) (fst (load_hormone_levels st))"
  using assms(2)
proof (induction n arbitrary: st)
  case 0
  then show ?case by simp
next
  case (Suc n)
  let ?h = "natural_decay (fst (load_hormone_levels st))"
  let ?st1 = "save_hormone_levels ?h (snd (load_hormone_levels st))"
  have w1: "writable (snd (load_hormone_levels st)) HORMONES_FILE"
    using Suc.prems by (simp add: writable_def load_hormone_levels_writable)
  have w: "writable ?st1 HORMONES_FILE"
    using w1 by (simp add: writable_def save_hormone_levels_writable)
  have l: "fst (load_hormone_levels ?st1) = ?h"
    using w1 by (rule load_after_save)
  have step: "snd (adjust_hormones event st) = ?st1"
    using adjust_hormones_unknown [OF assms(1), of st] by simp
  show ?case
    using Suc.IH [OF w] l step by (simp add: funpow_swap1)
qed


lemma adjust_hormones_decays_all:
  "legacy_event event (fst (load_hormone_levels st)) = Inr adjusted \<Longrightarrow>
     fst (adjust_hormones event st) = Inr (\<lambda>k. map_option decay_level (adjusted k))"
  by (simp add: adjust_hormones_def natural_decay_def Let_def case_prod_beta)

lemma apply_contextual_decays_all:
  "hormone_adjustments (analyze_contextual_sentiment text) \<noteq> [] \<Longrightarrow>
   apply_adjustments (hormone_adjustments (analyze_contextual_sentiment text))
      (intensity (analyze_contextual_sentiment text)) (fst (load_hormone_levels st)) = Inr adjusted \<Longrightarrow>
     fst (apply_contextual_hormone_adjustments text st) = Inr (\<lambda>k. map_option decay_level (adjusted k))"
  by (simp add: apply_contextual_hormone_adjustments_def natural_decay_def Let_def case_prod_beta)

text \<open>With the hormone file present and its write failing before the file is opened, a
  call of \<open>adjust_hormones\<close> leaves the store as it was, so repeated calls all start from
  the same record.\<close>

lemma adjust_hormones_unsaved:
  assumes "write_outcome st HORMONES_FILE = Open_fails" and "hormones_file st = Doc h"
  shows "snd (adjust_hormones event st) = st"
  using assms
  by (cases "legacy_event event h")
     (simp_all add: adjust_hormones_def load_hormone_levels_def save_hormone_levels_def
       written_def Let_def)

lemma repeat_adjust_unsaved:
  "write_outcome st HORMONES_FILE = Open_fails \<Longrightarrow> hormones_file st = Doc h \<Longrightarrow>
     repeat_adjust_hormones n event st = st"
  by (induction n) (simp_all add: adjust_hormones_unsaved)

text \<open>
  C5, as the claim states it, fails when the save of the hormone record does not succeed:
  \<open>save_hormone_levels\<close> only logs the failure, so every call reads the same record again.
  With dopamine stored as 0.53 and the hormone file not writable, the stored level is
  still 0.53 after 100 decay-only calls, and the next call returns 0.52 once more.
\<close>

theorem decay_only_calls_unsaved_counterexample:
  "None \<notin> Some ` fst ` set legacy_event_hormones
   \<and> fst (load_hormone_levels (repeat_adjust_hormones 100 None
        ((empty_store hormones_not_writable)\<lparr>hormones_file := Doc (map_of [(''dopamine'', 0.53)])\<rparr>)))
       ''dopamine'' = Some 0.53
   \<and> fst (adjust_hormones None (repeat_adjust_hormones 100 None
        ((empty_store hormones_not_writable)\<lparr>hormones_file := Doc (map_of [(''dopamine'', 0.53)])\<rparr>)))
       = Inr (natural_decay (map_of [(''dopamine'', 0.53)]))
   \<and> natural_decay (map_of [(''dopamine'', 0.53)]) ''dopamine'' = Some 0.52"
proof -
  have r: "repeat_adjust_hormones 100 None
        ((empty_store hormones_not_writable)\<lparr>hormones_file := Doc (map_of [(''dopamine'', 0.53)])\<rparr>)
      = (empty_store hormones_not_writable)\<lparr>hormones_file := Doc (map_of [(''dopamine'', 0.53)])\<rparr>"
    by (rule repeat_adjust_unsaved) (simp_all add: empty_store_def hormones_not_writable_def)
  show ?thesis
    unfolding r
    by (simp add: load_hormone_levels_def adjust_hormones_def legacy_event_def empty_store_def
        natural_decay_def decay_level_def Let_def)
qed

text \<open>
  C5, amended. After the adjustments of a call, every level of the record (adjusted or not)
  goes through one decay step, in \<open>adjust_hormones\<close> and in
  \<open>apply_contextual_hormone_adjustments\<close> alike. A step leaves 0.5 unchanged and otherwise
  shortens the distance to 0.5 by 0.01, stopping at 0.5. A decay-only call is a call of
  \<open>adjust_hormones\<close> with no event or an unknown one; when the save of the hormone record
  succeeds (the hormone file is writable), so that each call sees what the previous one
  saved, \<open>n\<close> such calls leave every level \<open>v\<close> at the \<open>n\<close>-fold decay of \<open>v\<close>, which never
  crosses 0.5, moves monotonically towards it, and is exactly 0.5 as soon as \<open>n\<close> steps of
  0.01 cover the distance.
\<close>

theorem decay_only_calls_converge:
  assumes "event \<notin> Some ` fst ` set legacy_event_hormones" and "writable st HORMONES_FILE"
  shows "fst (adjust_hormones event st)
           = Inr (\<lambda>k. map_option decay_level (fst (load_hormone_levels st) k))
   \<and> (legacy_event other_event (fst (load_hormone_levels st)) = Inr adjusted \<longrightarrow>
        fst (adjust_hormones other_event st) = Inr (\<lambda>k. map_option decay_level (adjusted k)))
   \<and> (hormone_adjustments (analyze_contextual_sentiment text) \<noteq> [] \<and>
      apply_adjustments (hormone_adjustments (analyze_contextual_sentiment text))
        (intensity (analyze_contextual_sentiment text)) (fst (load_hormone_levels st)) = Inr adjusted' \<longrightarrow>
        fst (apply_contextual_hormone_adjustments text st)
          = Inr (\<lambda>k. map_option decay_level (adjusted' k)))
   \<and> fst (load_hormone_levels (repeat_adjust_hormones n event st))
           = (\<lambda>k. map_option (decay_level ^^ n) (fst (load_hormone_levels st) k))
   \<and> decay_level 0.5 = 0.5
   \<and> \<bar>decay_level v - 0.5\<bar> = max 0 (\<bar>v - 0.5\<bar> - 0.01)
   \<and> (0.5 \<le> v \<longrightarrow> 0.5 \<le> (decay_level ^^ n) v \<and> (decay_level ^^ Suc n) v \<le> (decay_level ^^ n) v)
   \<and> (v \<le> 0.5 \<longrightarrow> (decay_level ^^ n) v \<le> 0.5 \<and> (decay_level ^^ n) v \<le> (decay_level ^^ Suc n) v)
   \<and> (\<bar>v - 0.5\<bar> \<le> 0.01 * real n \<longrightarrow> (decay_level ^^ n) v = 0.5)"
proof -
  have a: "fst (adjust_hormones event st)
           = Inr (\<lambda>k. map_option decay_level (fst (load_hormone_levels st) k))"
    using legacy_event_unknown [OF assms(1)] by (rule adjust_hormones_decays_all)
  have b: "fst (load_hormone_levels (repeat_adjust_hormones n event st))
           = (\<lambda>k. map_option (decay_level ^^ n) (fst (load_hormone_levels st) k))"
    using repeat_adjust_unknown [OF assms, of n] by (simp add: natural_decay_pow)
  show ?thesis
    using a b decay_level_half decay_level_dist [of v] decay_pow_above [of v n]
      decay_pow_below [of v n] decay_pow_converged [of v n]
      adjust_hormones_decays_all [of other_event st adjusted]
      apply_contextual_decays_all [of "text" st "adjusted'"]
    by blast
qed

theorem decay_only_calls_converge_witness:
  "None \<notin> Some ` fst ` set legacy_event_hormones
   \<and> writable ((empty_store all_writable)
        \<lparr>hormones_file := Doc (map_of [(''dopamine'', 0.53), (''cortisol'', 0.2)])\<rparr>) HORMONES_FILE
   \<and> fst (load_hormone_levels (repeat_adjust_hormones 3 None ((empty_store all_writable)
        \<lparr>hormones_file := Doc (map_of [(''dopamine'', 0.53), (''cortisol'', 0.2)])\<rparr>))) ''dopamine''
       = Some 0.5"
  using decay_only_calls_converge [where event = None and n = 3 and v = "0.53" and st = "(empty_store all_writable)
        \<lparr>hormones_file := Doc (map_of [(''dopamine'', 0.53), (''cortisol'', 0.2)])\<rparr>"]
  by (simp add: empty_store_def all_writable_def writable_def load_hormone_levels_def)

section \<open>Hormone engine: levels stay in the unit interval\<close>

lemma levels_in_range_upd: "levels_in_range h \<Longrightarrow> 0 \<le> x \<Longrightarrow> x \<le> 1 \<Longrightarrow> levels_in_range (h(k \<mapsto> x))"
  by (simp add: levels_in_range_def)

lemma levels_in_range_at: "levels_in_range h \<Longrightarrow> h k = Some v \<Longrightarrow> 0 \<le> v \<and> v \<le> 1"
  by (simp add: levels_in_range_def)

lemma apply_adjustments_range:
  "levels_in_range h \<Longrightarrow> apply_adjustments adj i h = Inr h' \<Longrightarrow> levels_in_range h'"
proof (induction adj arbitrary: h)
  case Nil
  then show ?case by simp
next
  case (Cons a adj)
  obtain k b where a: "a = (k, b)" by (cases a)
  from Cons.prems(2) a obtain level where lv: "h k = Some level"
    and rest: "apply_adjustments adj i (h(k \<mapsto> max 0 (min 1 (level + b * i)))) = Inr h'"
    by (auto split: option.splits)
  have "levels_in_range (h(k \<mapsto> max 0 (min 1 (level + b * i))))"
    using Cons.prems(1) by (intro levels_in_range_upd) auto
  then show ?case using Cons.IH rest by blast
qed

lemma apply_adjustments_total:
  "fst ` set adj \<subseteq> dom h \<Longrightarrow> \<exists>h'. apply_adjustments adj i h = Inr h'"
proof (induction adj arbitrary: h)
  case Nil
  then show ?case by simp
next
  case (Cons a adj)
  obtain k b where a: "a = (k, b)" by (cases a)
  then obtain level where lv: "h k = Some level" using Cons.prems by auto
  have "fst ` set adj \<subseteq> dom (h(k \<mapsto> max 0 (min 1 (level + b * i))))"
    using Cons.prems by auto
  then obtain h' where "apply_adjustments adj i (h(k \<mapsto> max 0 (min 1 (level + b * i)))) = Inr h'"
    using Cons.IH by blast
  then show ?case using a lv by simp
qed

lemma natural_decay_range: "levels_in_range h \<Longrightarrow> levels_in_range (natural_decay h)"
  using decay_level_range by (auto simp: levels_in_range_def natural_decay_def)

lemma raise_level_range:
  assumes "levels_in_range h" and "0 \<le> d" and "raise_level k d h = Inr h'"
  shows "levels_in_range h'"
proof -
  from assms(3) obtain v where v: "h k = Some v" and h': "h' = h(k \<mapsto> min 1 (v + d))"
    by (auto simp: raise_level_def split: option.splits)
  have "0 \<le> v" using levels_in_range_at [OF assms(1) v] by simp
  then show ?thesis unfolding h' using assms(1,2) by (intro levels_in_range_upd) auto
qed

lemma lower_level_range:
  assumes "levels_in_range h" and "0 \<le> d" and "lower_level k d h = Inr h'"
  shows "levels_in_range h'"
proof -
  from assms(3) obtain v where v: "h k = Some v" and h': "h' = h(k \<mapsto> max 0 (v - d))"
    by (auto simp: lower_level_def split: option.splits)
  have "v \<le> 1" using levels_in_range_at [OF assms(1) v] by simp
  then show ?thesis unfolding h' using assms(1,2) by (intro levels_in_range_upd) auto
qed

lemma and_then_Inr:
  "and_then r f = Inr y \<Longrightarrow> \<exists>x. r = Inr x \<and> f x = Inr y"
  by (cases r) (auto simp: and_then_def)

lemma raise_raise_range:
  assumes "levels_in_range h" and "0 \<le> d1" and "0 \<le> d2"
    and "and_then (raise_level k1 d1 h) (raise_level k2 d2) = Inr h'"
  shows "levels_in_range h'"
proof -
  obtain x where x: "raise_level k1 d1 h = Inr x" and y: "raise_level k2 d2 x = Inr h'"
    using and_then_Inr [OF assms(4)] by blast
  have "levels_in_range x" using assms(1,2) x by (rule raise_level_range)
  then show ?thesis using assms(3) y by (rule raise_level_range)
qed

lemma raise_lower_range:
  assumes "levels_in_range h" and "0 \<le> d1" and "0 \<le> d2"
    and "and_then (raise_level k1 d1 h) (lower_level k2 d2) = Inr h'"
  shows "levels_in_range h'"
proof -
  obtain x where x: "raise_level k1 d1 h = Inr x" and y: "lower_level k2 d2 x = Inr h'"
    using and_then_Inr [OF assms(4)] by blast
  have "levels_in_range x" using assms(1,2) x by (rule raise_level_range)
  then show ?thesis using assms(3) y by (rule lower_level_range)
qed

lemma lower_raise_range:
  assumes "levels_in_range h" and "0 \<le> d1" and "0 \<le> d2"
    and "and_then (lower_level k1 d1 h) (raise_level k2 d2) = Inr h'"
  shows "levels_in_range h'"
proof -
  obtain x where x: "lower_level k1 d1 h = Inr x" and y: "raise_level k2 d2 x = Inr h'"
    using and_then_Inr [OF assms(4)] by blast
  have "levels_in_range x" using assms(1,2) x by (rule lower_level_range)
  then show ?thesis using assms(3) y by (rule raise_level_range)
qed

lemma lower_lower_range:
  assumes "levels_in_range h" and "0 \<le> d1" and "0 \<le> d2"
    and "and_then (lower_level k1 d1 h) (lower_level k2 d2) = Inr h'"
  shows "levels_in_range h'"
proof -
  obtain x where x: "lower_level k1 d1 h = Inr x" and y: "lower_level k2 d2 x = Inr h'"
    using and_then_Inr [OF assms(4)] by blast
  have "levels_in_range x" using assms(1,2) x by (rule lower_level_range)
  then show ?thesis using assms(3) y by (rule lower_level_range)
qed

lemma legacy_event_range:
  assumes "levels_in_range h" and "legacy_event event h = Inr h'"
  shows "levels_in_range h'"
proof -
  consider (pf) "event = Some ''positive_feedback''" | (st) "event = Some ''stress''"
    | (sc) "event = Some ''social_connection''" | (iso) "event = Some ''isolation''"
    | (ach) "event = Some ''achievement''" | (dis) "event = Some ''disappointment''"
    | (other) "event \<notin> Some ` fst ` set legacy_event_hormones"
    by (auto simp: legacy_event_hormones_def)
  then show ?thesis
  proof cases
    case pf
    then have e: "and_then (raise_level ''dopamine'' 0.1 h) (raise_level ''serotonin'' 0.05) = Inr h'"
      using assms(2) by (simp add: legacy_event_def)
    show ?thesis by (rule raise_raise_range [OF assms(1) _ _ e]) simp_all
  next
    case st
    then have e: "and_then (raise_level ''cortisol'' 0.1 h) (lower_level ''serotonin'' 0.05) = Inr h'"
      using assms(2) by (simp add: legacy_event_def)
    show ?thesis by (rule raise_lower_range [OF assms(1) _ _ e]) simp_all
  next
    case sc
    then have e: "and_then (raise_level ''oxytocin'' 0.1 h) (raise_level ''dopamine'' 0.05) = Inr h'"
      using assms(2) by (simp add: legacy_event_def)
    show ?thesis by (rule raise_raise_range [OF assms(1) _ _ e]) simp_all
  next
    case iso
    then have e: "and_then (lower_level ''oxytocin'' 0.1 h) (raise_level ''cortisol'' 0.05) = Inr h'"
      using assms(2) by (simp add: legacy_event_def)
    show ?thesis by (rule lower_raise_range [OF assms(1) _ _ e]) simp_all
  next
    case ach
    then have e: "and_then (raise_level ''dopamine'' 0.15 h) (raise_level ''serotonin'' 0.1) = Inr h'"
      using assms(2) by (simp add: legacy_event_def)
    show ?thesis by (rule raise_raise_range [OF assms(1) _ _ e]) simp_all
  next
    case dis
    then have e: "and_then (lower_level ''dopamine'' 0.1 h) (lower_level ''serotonin'' 0.08) = Inr h'"
      using assms(2) by (simp add: legacy_event_def)
    show ?thesis by (rule lower_lower_range [OF assms(1) _ _ e]) simp_all
  next
    case other
    then show ?thesis using assms legacy_event_unknown [of event h] by simp
  qed
qed


lemma raise_level_total:
  "k \<in> dom h \<Longrightarrow> \<exists>h'. raise_level k d h = Inr h' \<and> dom h' = dom h"
  by (auto simp: raise_level_def)

lemma lower_level_total:
  "k \<in> dom h \<Longrightarrow> \<exists>h'. lower_level k d h = Inr h' \<and> dom h' = dom h"
  by (auto simp: lower_level_def)

lemma two_levels_total:
  assumes "k1 \<in> dom h" and "k2 \<in> dom h"
    and "f = raise_level k1 d1 \<or> f = lower_level k1 d1"
    and "g = raise_level k2 d2 \<or> g = lower_level k2 d2"
  shows "\<exists>z. and_then (f h) g = Inr z"
proof -
  obtain x where x: "f h = Inr x" and dx: "dom x = dom h"
    using assms(1,3) raise_level_total [of k1 h d1] lower_level_total [of k1 h d1] by auto
  have "k2 \<in> dom x" using assms(2) dx by simp
  then obtain y where "g x = Inr y"
    using assms(4) raise_level_total [of k2 x d2] lower_level_total [of k2 x d2] by auto
  then show ?thesis using x by (simp add: and_then_def)
qed

lemma legacy_event_total:
  assumes "{''dopamine'', ''serotonin'', ''cortisol'', ''oxytocin''} \<subseteq> dom h"
  shows "\<exists>h'. legacy_event event h = Inr h'"
proof -
  have d: "''dopamine'' \<in> dom h" and s: "''serotonin'' \<in> dom h"
    and c: "''cortisol'' \<in> dom h" and ox: "''oxytocin'' \<in> dom h"
    using assms by auto
  show ?thesis
    unfolding legacy_event_def
    using two_levels_total [OF d s, of "raise_level ''dopamine'' 0.1" "0.1" "raise_level ''serotonin'' 0.05" "0.05"]
      two_levels_total [OF c s, of "raise_level ''cortisol'' 0.1" "0.1" "lower_level ''serotonin'' 0.05" "0.05"]
      two_levels_total [OF ox d, of "raise_level ''oxytocin'' 0.1" "0.1" "raise_level ''dopamine'' 0.05" "0.05"]
      two_levels_total [OF ox c, of "lower_level ''oxytocin'' 0.1" "0.1" "raise_level ''cortisol'' 0.05" "0.05"]
      two_levels_total [OF d s, of "raise_level ''dopamine'' 0.15" "0.15" "raise_level ''serotonin'' 0.1" "0.1"]
      two_levels_total [OF d s, of "lower_level ''dopamine'' 0.1" "0.1" "lower_level ''serotonin'' 0.08" "0.08"]
    by simp
qed

lemma match_categories_adjustments:
  "match_categories t low cfgs = Some r \<Longrightarrow> hormone_adjustments r \<in> config_hormones ` snd ` set cfgs"
proof (induction cfgs)
  case Nil
  then show ?case by simp
next
  case (Cons a cfgs)
  obtain e c where a: "a = (e, c)" by (cases a)
  show ?case
  proof (cases "match_patterns low (patterns c)")
    case None
    then show ?thesis using Cons a by simp
  next
    case (Some p)
    then have "hormone_adjustments r = config_hormones c" using Cons.prems a by auto
    then show ?thesis using a by simp
  qed
qed

lemma word_level_adjustment_keys:
  "fst ` set (hormone_adjustments (word_level_sentiment_analysis t))
     \<subseteq> {''dopamine'', ''serotonin'', ''cortisol'', ''oxytocin''}"
  by (simp add: word_level_sentiment_analysis_def Let_def)

lemma analysis_adjustment_keys:
  "fst ` set (hormone_adjustments (analyze_contextual_sentiment t))
     \<subseteq> {''dopamine'', ''serotonin'', ''cortisol'', ''oxytocin''}"
proof (cases "match_categories t (strip (lower t)) EMOTION_PATTERNS")
  case None
  then show ?thesis
    using word_level_adjustment_keys [of "strip (lower t)"]
    by (simp add: analyze_contextual_sentiment_def)
next
  case (Some r)
  have "hormone_adjustments r \<in> config_hormones ` snd ` set EMOTION_PATTERNS"
    using Some by (rule match_categories_adjustments)
  then have "fst ` set (hormone_adjustments r) \<subseteq> {''dopamine'', ''serotonin'', ''cortisol'', ''oxytocin''}"
    by (auto simp: EMOTION_PATTERNS_def)
  then show ?thesis using Some by (simp add: analyze_contextual_sentiment_def)
qed

lemma load_file_is_loaded:
  "hormones_file (snd (load_hormone_levels st)) = Doc h \<Longrightarrow> h = fst (load_hormone_levels st)"
  by (auto simp: load_hormone_levels_def Let_def split: document.splits if_splits)

lemma save_file_cases:
  "hormones_file (save_hormone_levels h st) = Doc h' \<Longrightarrow> h' = h \<or> hormones_file st = Doc h'"
  by (auto simp: save_hormone_levels_def written_def split: write_result.splits)

lemma adjust_hormones_cases:
  "(\<exists>e. adjust_hormones event st = (Inl e, snd (load_hormone_levels st)))
   \<or> (\<exists>adjusted. legacy_event event (fst (load_hormone_levels st)) = Inr adjusted
        \<and> adjust_hormones event st =
            (Inr (natural_decay adjusted),
             save_hormone_levels (natural_decay adjusted) (snd (load_hormone_levels st))))"
  by (cases "legacy_event event (fst (load_hormone_levels st))")
     (simp_all add: adjust_hormones_def Let_def case_prod_beta)

lemma apply_contextual_cases:
  "(\<exists>e. apply_contextual_hormone_adjustments t st = (Inl e, snd (load_hormone_levels st)))
   \<or> apply_contextual_hormone_adjustments t st
         = (Inr (fst (load_hormone_levels st)), snd (load_hormone_levels st))
   \<or> (\<exists>adjusted. apply_adjustments (hormone_adjustments (analyze_contextual_sentiment t))
           (intensity (analyze_contextual_sentiment t)) (fst (load_hormone_levels st)) = Inr adjusted
        \<and> apply_contextual_hormone_adjustments t st =
            (Inr (natural_decay adjusted),
             save_hormone_levels (natural_decay adjusted) (snd (load_hormone_levels st))))"
  by (cases "apply_adjustments (hormone_adjustments (analyze_contextual_sentiment t))
           (intensity (analyze_contextual_sentiment t)) (fst (load_hormone_levels st))")
     (simp_all add: apply_contextual_hormone_adjustments_def Let_def case_prod_beta)

lemma adjust_hormones_range:
  assumes "levels_in_range (fst (load_hormone_levels st))"
  shows "(\<forall>h. fst (adjust_hormones event st) = Inr h \<longrightarrow> levels_in_range h)
       \<and> (\<forall>h. hormones_file (snd (adjust_hormones event st)) = Doc h \<longrightarrow> levels_in_range h)"
proof -
  consider (err) e where "adjust_hormones event st = (Inl e, snd (load_hormone_levels st))"
    | (ok) adjusted where "legacy_event event (fst (load_hormone_levels st)) = Inr adjusted"
        "adjust_hormones event st =
            (Inr (natural_decay adjusted),
             save_hormone_levels (natural_decay adjusted) (snd (load_hormone_levels st)))"
    using adjust_hormones_cases [of event st] by blast
  then show ?thesis
  proof cases
    case err
    then show ?thesis using assms load_file_is_loaded [of st] by auto
  next
    case ok
    have "levels_in_range adjusted" using assms ok(1) by (rule legacy_event_range)
    then have "levels_in_range (natural_decay adjusted)" by (rule natural_decay_range)
    then show ?thesis
      using ok(2) assms load_file_is_loaded [of st]
        save_file_cases [of "natural_decay adjusted" "snd (load_hormone_levels st)"]
      by auto
  qed
qed

lemma apply_contextual_range:
  assumes "levels_in_range (fst (load_hormone_levels st))"
  shows "(\<forall>h. fst (apply_contextual_hormone_adjustments t st) = Inr h \<longrightarrow> levels_in_range h)
       \<and> (\<forall>h. hormones_file (snd (apply_contextual_hormone_adjustments t st)) = Doc h \<longrightarrow> levels_in_range h)"
proof -
  consider (err) e where "apply_contextual_hormone_adjustments t st = (Inl e, snd (load_hormone_levels st))"
    | (none) "apply_contextual_hormone_adjustments t st
         = (Inr (fst (load_hormone_levels st)), snd (load_hormone_levels st))"
    | (ok) adjusted where "apply_adjustments (hormone_adjustments (analyze_contextual_sentiment t))
           (intensity (analyze_contextual_sentiment t)) (fst (load_hormone_levels st)) = Inr adjusted"
        "apply_contextual_hormone_adjustments t st =
            (Inr (natural_decay adjusted),
             save_hormone_levels (natural_decay adjusted) (snd (load_hormone_levels st)))"
    using apply_contextual_cases [of t st] by blast
  then show ?thesis
  proof cases
    case err
    then show ?thesis using assms load_file_is_loaded [of st] by auto
  next
    case none
    then show ?thesis using assms load_file_is_loaded [of st] by auto
  next
    case ok
    have "levels_in_range adjusted" using assms ok(1) by (rule apply_adjustments_range)
    then have "levels_in_range (natural_decay adjusted)" by (rule natural_decay_range)
    then show ?thesis
      using ok(2) assms load_file_is_loaded [of st]
        save_file_cases [of "natural_decay adjusted" "snd (load_hormone_levels st)"]
      by auto
  qed
qed

lemma adjustments_return:
  assumes "{''dopamine'', ''serotonin'', ''cortisol'', ''oxytocin''} \<subseteq> dom (fst (load_hormone_levels st))"
  shows "(\<exists>h. fst (apply_contextual_hormone_adjustments t st) = Inr h)
       \<and> (\<exists>h. fst (adjust_hormones event st) = Inr h)"
proof -
  have "fst ` set (hormone_adjustments (analyze_contextual_sentiment t)) \<subseteq> dom (fst (load_hormone_levels st))"
    using analysis_adjustment_keys [of t] assms by blast
  then obtain adjusted where "apply_adjustments (hormone_adjustments (analyze_contextual_sentiment t))
           (intensity (analyze_contextual_sentiment t)) (fst (load_hormone_levels st)) = Inr adjusted"
    using apply_adjustments_total by blast
  then have a: "\<exists>h. fst (apply_contextual_hormone_adjustments t st) = Inr h"
    by (simp add: apply_contextual_hormone_adjustments_def Let_def case_prod_beta)
  obtain adjusted' where "legacy_event event (fst (load_hormone_levels st)) = Inr adjusted'"
    using legacy_event_total [OF assms] by blast
  then have "\<exists>h. fst (adjust_hormones event st) = Inr h"
    by (simp add: adjust_hormones_def Let_def case_prod_beta)
  then show ?thesis using a by blast
qed

text \<open>
  C4. If every level of the loaded hormone record lies in [0,1], then the record returned
  by \<open>apply_contextual_hormone_adjustments\<close> (for any text) and the record returned by
  \<open>adjust_hormones\<close> (for any event) have every level in [0,1], and so does the record the
  hormone file holds afterwards. A record that has the four hormones makes both operations
  return a record (neither raises).
\<close>

theorem levels_stay_in_unit_interval:
  assumes "levels_in_range (fst (load_hormone_levels st))"
  shows "(\<forall>h. fst (apply_contextual_hormone_adjustments t st) = Inr h \<longrightarrow> levels_in_range h)
   \<and> (\<forall>h. hormones_file (snd (apply_contextual_hormone_adjustments t st)) = Doc h \<longrightarrow> levels_in_range h)
   \<and> (\<forall>h. fst (adjust_hormones event st) = Inr h \<longrightarrow> levels_in_range h)
   \<and> (\<forall>h. hormones_file (snd (adjust_hormones event st)) = Doc h \<longrightarrow> levels_in_range h)
   \<and> ({''dopamine'', ''serotonin'', ''cortisol'', ''oxytocin''} \<subseteq> dom (fst (load_hormone_levels st)) \<longrightarrow>
        (\<exists>h. fst (apply_contextual_hormone_adjustments t st) = Inr h)
        \<and> (\<exists>h. fst (adjust_hormones event st) = Inr h))"
  using apply_contextual_range [OF assms, of t] adjust_hormones_range [OF assms, of event]
    adjustments_return [of st t event]
  by blast

theorem levels_stay_in_unit_interval_witness:
  "levels_in_range (fst (load_hormone_levels (empty_store all_writable)))
   \<and> (\<exists>h. fst (apply_contextual_hormone_adjustments ''You are AMAZING!!!'' (empty_store all_writable)) = Inr h
          \<and> levels_in_range h)
   \<and> (\<exists>h. fst (adjust_hormones (Some ''achievement'') (empty_store all_writable)) = Inr h
          \<and> levels_in_range h)"
proof -
  have h: "levels_in_range (fst (load_hormone_levels (empty_store all_writable)))"
    by (simp add: levels_in_range_def load_hormone_levels_def empty_store_def all_writable_def
        written_def DEFAULT_HORMONES_def)
  have d: "{''dopamine'', ''serotonin'', ''cortisol'', ''oxytocin''}
      \<subseteq> dom (fst (load_hormone_levels (empty_store all_writable)))"
    by (simp add: load_hormone_levels_def empty_store_def all_writable_def written_def
        DEFAULT_HORMONES_def)
  show ?thesis
    using h d levels_stay_in_unit_interval [OF h, of "''You are AMAZING!!!''" "Some ''achievement''"]
    by blast
qed

section \<open>Mood recorder: the history keeps the last 100 entries\<close>

lemma keep_last_100_absorb: "keep_last_100 (keep_last_100 xs @ ys) = keep_last_100 (xs @ ys)"
  by (auto simp: keep_last_100_def add.commute)

lemma keep_last_100_long:
  assumes "100 \<le> length ys"
  shows "keep_last_100 (xs @ ys) = drop (length ys - 100) ys"
proof (cases "100 < length xs + length ys")
  case True
  then show ?thesis using assms by (simp add: keep_last_100_def)
next
  case False
  then have "length xs = 0" and "length ys = 100" using assms by arith+
  then show ?thesis by (simp add: keep_last_100_def)
qed

lemma load_hormone_levels_other_files:
  "mood_history_file (snd (load_hormone_levels st)) = mood_history_file st
   \<and> mood_adjustments_file (snd (load_hormone_levels st)) = mood_adjustments_file st
   \<and> mood_weights_file (snd (load_hormone_levels st)) = mood_weights_file st
   \<and> write_outcome (snd (load_hormone_levels st)) = write_outcome st"
  by (simp add: load_hormone_levels_def Let_def split: document.splits)

lemma update_mood_step:
  assumes "writable st MOOD_ADJUSTMENTS_FILE" and "writable st MOOD_HISTORY_FILE"
  shows "mood_history_file (update_mood a st)
           = Doc (keep_last_100 (fst (load_mood_history st) @ [entry_of_call st a]))
       \<and> write_outcome (update_mood a st) = write_outcome st
       \<and> fst (load_hormone_levels (update_mood a st)) = fst (load_hormone_levels st)"
  using assms
  by (cases "mood_history_file st"; cases "hormones_file st";
      cases "write_outcome st HORMONES_FILE")
     (simp_all add: update_mood_def load_mood_history_def save_mood_history_def entry_of_call_def
       load_hormone_levels_def writable_def written_def Let_def case_prod_beta)

lemma entry_of_call_same_levels:
  "fst (load_hormone_levels st1) = fst (load_hormone_levels st) \<Longrightarrow> entry_of_call st1 = entry_of_call st"
  by (rule ext) (simp add: entry_of_call_def)

lemma load_mood_history_Doc: "mood_history_file st = Doc h \<Longrightarrow> fst (load_mood_history st) = h"
  by (simp add: load_mood_history_def)

lemma update_moods_history:
  assumes "calls \<noteq> []"
    and "writable st MOOD_ADJUSTMENTS_FILE" and "writable st MOOD_HISTORY_FILE"
  shows "mood_history_file (update_moods calls st)
           = Doc (keep_last_100 (fst (load_mood_history st) @ map (entry_of_call st) calls))"
  using assms
proof (induction calls arbitrary: st)
  case Nil
  then show ?case by simp
next
  case (Cons a calls)
  let ?st1 = "update_mood a st"
  have step: "mood_history_file ?st1
           = Doc (keep_last_100 (fst (load_mood_history st) @ [entry_of_call st a]))"
    and w: "write_outcome ?st1 = write_outcome st"
    and lv: "fst (load_hormone_levels ?st1) = fst (load_hormone_levels st)"
    using update_mood_step [OF Cons.prems(2,3), of a] by simp_all
  show ?case
  proof (cases "calls = []")
    case True
    then show ?thesis using step by simp
  next
    case False
    have "mood_history_file (update_moods calls ?st1)
           = Doc (keep_last_100 (fst (load_mood_history ?st1) @ map (entry_of_call ?st1) calls))"
      using Cons.IH [OF False, of ?st1] Cons.prems(2,3) w by (simp add: writable_def)
    also have "fst (load_mood_history ?st1) = keep_last_100 (fst (load_mood_history st) @ [entry_of_call st a])"
      using step by (rule load_mood_history_Doc)
    also have "entry_of_call ?st1 = entry_of_call st"
      using lv by (rule entry_of_call_same_levels)
    finally show ?thesis by (simp add: keep_last_100_absorb)
  qed
qed

text \<open>A call whose snapshot write fails: the history, the other documents and the
  environment are left alone; the snapshot is as before or unreadable.\<close>

lemma update_mood_snapshot_fails:
  assumes "\<not> writable st MOOD_ADJUSTMENTS_FILE"
  shows "mood_history_file (update_mood a st) = mood_history_file st
     \<and> hormones_file (update_mood a st) = hormones_file st
     \<and> mood_weights_file (update_mood a st) = mood_weights_file st
     \<and> write_outcome (update_mood a st) = write_outcome st
     \<and> (mood_adjustments_file (update_mood a st) = mood_adjustments_file st
          \<or> mood_adjustments_file (update_mood a st) = Malformed)"
  using assms
  by (cases "write_outcome st MOOD_ADJUSTMENTS_FILE")
     (simp_all add: update_mood_def writable_def written_def Let_def)

lemma update_moods_snapshot_fails:
  "\<not> writable st MOOD_ADJUSTMENTS_FILE \<Longrightarrow>
     mood_history_file (update_moods calls st) = mood_history_file st"
proof (induction calls arbitrary: st)
  case Nil
  then show ?case by simp
next
  case (Cons a calls)
  have "\<not> writable (update_mood a st) MOOD_ADJUSTMENTS_FILE"
    using Cons.prems update_mood_snapshot_fails [OF Cons.prems, of a] by (simp add: writable_def)
  then have "mood_history_file (update_moods calls (update_mood a st))
      = mood_history_file (update_mood a st)"
    by (rule Cons.IH)
  then show ?case using update_mood_snapshot_fails [OF Cons.prems, of a] by simp
qed

text \<open>A call whose history write fails before the file is opened leaves the history as
  it was.\<close>

lemma update_mood_history_unwritable:
  assumes "write_outcome st MOOD_HISTORY_FILE = Open_fails" and "mood_history_file st = Doc h"
  shows "mood_history_file (update_mood a st) = Doc h
     \<and> write_outcome (update_mood a st) = write_outcome st"
  using assms
  by (cases "write_outcome st MOOD_ADJUSTMENTS_FILE"; cases "hormones_file st";
      cases "write_outcome st HORMONES_FILE")
     (simp_all add: update_mood_def load_mood_history_def save_mood_history_def
       load_hormone_levels_def written_def Let_def case_prod_beta)

lemma update_moods_history_unwritable:
  "write_outcome st MOOD_HISTORY_FILE = Open_fails \<Longrightarrow> mood_history_file st = Doc h \<Longrightarrow>
     mood_history_file (update_moods calls st) = Doc h"
proof (induction calls arbitrary: st)
  case Nil
  then show ?case by simp
next
  case (Cons a calls)
  have "mood_history_file (update_mood a st) = Doc h"
    and "write_outcome (update_mood a st) MOOD_HISTORY_FILE = Open_fails"
    using update_mood_history_unwritable [OF Cons.prems, of a] Cons.prems(1) by simp_all
  then show ?case using Cons.IH by simp
qed

text \<open>
  C6, as the claim states it, fails when the writes of the calls do not succeed. With an
  empty history on disk, 100 calls leave the history empty when the history file cannot be
  written (the failed save is only logged), and also when the snapshot file cannot be
  written (each call returns before it appends).
\<close>

theorem history_unwritten_counterexample:
  "100 \<le> length (map (plain_call \<circ> string_of_nat) [0..<100])
   \<and> mood_history_file
        (update_moods (map (plain_call \<circ> string_of_nat) [0..<100])
           ((empty_store history_not_writable)\<lparr>mood_history_file := Doc []\<rparr>)) = Doc []
   \<and> mood_history_file
        (update_moods (map (plain_call \<circ> string_of_nat) [0..<100])
           ((empty_store snapshot_not_writable)\<lparr>mood_history_file := Doc []\<rparr>)) = Doc []
   \<and> length ([] :: history_entry list) \<noteq> 100"
proof -
  have a: "mood_history_file
        (update_moods (map (plain_call \<circ> string_of_nat) [0..<100])
           ((empty_store history_not_writable)\<lparr>mood_history_file := Doc []\<rparr>)) = Doc []"
    by (rule update_moods_history_unwritable)
       (simp_all add: empty_store_def history_not_writable_def)
  have b: "mood_history_file
        (update_moods (map (plain_call \<circ> string_of_nat) [0..<100])
           ((empty_store snapshot_not_writable)\<lparr>mood_history_file := Doc []\<rparr>)) = Doc []"
    using update_moods_snapshot_fails
      [of "(empty_store snapshot_not_writable)\<lparr>mood_history_file := Doc []\<rparr>"
          "map (plain_call \<circ> string_of_nat) [0..<100]"]
    by (simp add: empty_store_def snapshot_not_writable_def writable_def)
  show ?thesis using a b by simp
qed

text \<open>
  C6, amended. For every starting history and every sequence of at least 100
  \<open>update_mood\<close> calls whose snapshot write and history write succeed (so that every call
  appends and saves), the stored mood history afterwards has length exactly 100 and consists
  of the entries of the 100 most recent calls in their original order (oldest evicted
  first).
\<close>

theorem history_keeps_last_100:
  assumes "writable st MOOD_ADJUSTMENTS_FILE" and "writable st MOOD_HISTORY_FILE"
    and "100 \<le> length calls"
  shows "\<exists>history. mood_history_file (update_moods calls st) = Doc history
     \<and> length history = 100
     \<and> history = drop (length calls - 100) (map (entry_of_call st) calls)
     \<and> map he_mood history = drop (length calls - 100) (map new_mood calls)
     \<and> map he_intensity history = drop (length calls - 100) (map arg_intensity calls)
     \<and> map he_reason history = drop (length calls - 100) (map arg_reason calls)
     \<and> map timestamp history = drop (length calls - 100) (map now_entry calls)"
proof -
  have ne: "calls \<noteq> []" using assms(3) by auto
  have "mood_history_file (update_moods calls st)
          = Doc (keep_last_100 (fst (load_mood_history st) @ map (entry_of_call st) calls))"
    using ne assms(1,2) by (rule update_moods_history)
  then have h: "mood_history_file (update_moods calls st)
          = Doc (drop (length calls - 100) (map (entry_of_call st) calls))"
    using assms(3) by (simp add: keep_last_100_long)
  have fields: "he_mood \<circ> entry_of_call st = new_mood" "he_intensity \<circ> entry_of_call st = arg_intensity"
    "he_reason \<circ> entry_of_call st = arg_reason" "timestamp \<circ> entry_of_call st = now_entry"
    by (auto simp: entry_of_call_def make_history_entry_def Let_def)
  show ?thesis
    using h assms(3) fields by (simp add: drop_map)
qed

theorem history_keeps_last_100_witness:
  "writable (empty_store all_writable) MOOD_ADJUSTMENTS_FILE
   \<and> writable (empty_store all_writable) MOOD_HISTORY_FILE
   \<and> 100 \<le> length (map (plain_call \<circ> string_of_nat) [0..<101])
   \<and> (\<exists>history.
        mood_history_file (update_moods (map (plain_call \<circ> string_of_nat) [0..<101])
                             (empty_store all_writable)) = Doc history
      \<and> length history = 100
      \<and> map timestamp history = map string_of_nat [1..<101])"
  using history_keeps_last_100 [of "empty_store all_writable" "map (plain_call \<circ> string_of_nat) [0..<101]"]
  by (simp add: empty_store_def all_writable_def writable_def drop_map plain_call_def comp_def)

section \<open>Mood recorder: a failed snapshot write\<close>

lemma load_mood_weights_other_files:
  "mood_history_file (snd (load_mood_weights st)) = mood_history_file st
   \<and> mood_adjustments_file (snd (load_mood_weights st)) = mood_adjustments_file st
   \<and> hormones_file (snd (load_mood_weights st)) = hormones_file st
   \<and> write_outcome (snd (load_mood_weights st)) = write_outcome st"
  by (simp add: load_mood_weights_def Let_def split: document.splits)

text \<open>
  C8, as the claim states it, fails: when the snapshot document cannot be written,
  \<open>update_mood\<close> returns from the exception handler, before the history is loaded. With
  an empty history on disk and only the snapshot write failing, the history is still
  empty after the call, whether the write fails before the file is opened (no snapshot
  exists afterwards) or after (an unreadable snapshot is left).
\<close>

theorem snapshot_write_failure_counterexample:
  "\<not> writable ((empty_store snapshot_not_writable)\<lparr>mood_history_file := Doc []\<rparr>) MOOD_ADJUSTMENTS_FILE
   \<and> writable ((empty_store snapshot_not_writable)\<lparr>mood_history_file := Doc []\<rparr>) MOOD_HISTORY_FILE
   \<and> mood_history_file
        (update_mood (plain_call ''2026-01-01T00:00:00'')
           ((empty_store snapshot_not_writable)\<lparr>mood_history_file := Doc []\<rparr>)) = Doc []
   \<and> mood_adjustments_file
        (update_mood (plain_call ''2026-01-01T00:00:00'')
           ((empty_store snapshot_not_writable)\<lparr>mood_history_file := Doc []\<rparr>)) = Missing
   \<and> \<not> writable ((empty_store snapshot_dump_fails)\<lparr>mood_history_file := Doc []\<rparr>) MOOD_ADJUSTMENTS_FILE
   \<and> writable ((empty_store snapshot_dump_fails)\<lparr>mood_history_file := Doc []\<rparr>) MOOD_HISTORY_FILE
   \<and> mood_history_file
        (update_mood (plain_call ''2026-01-01T00:00:00'')
           ((empty_store snapshot_dump_fails)\<lparr>mood_history_file := Doc []\<rparr>)) = Doc []
   \<and> mood_adjustments_file
        (update_mood (plain_call ''2026-01-01T00:00:00'')
           ((empty_store snapshot_dump_fails)\<lparr>mood_history_file := Doc []\<rparr>)) = Malformed"
  by (simp add: update_mood_def empty_store_def snapshot_not_writable_def snapshot_dump_fails_def
      writable_def written_def Let_def)

text \<open>
  C8, amended. On a write failure of the mood snapshot document, \<open>update_mood\<close> logs and
  returns at once with the in-memory value un-persisted (the snapshot document is left as
  it was, or unreadable), and no history entry is appended for that call: the mood history
  is left as it was. The caller \<open>update_mood_from_hormones\<close> still returns the mood,
  intensity and context it computed for the current call.
\<close>

theorem snapshot_write_failure_skips_history:
  assumes "\<not> writable st MOOD_ADJUSTMENTS_FILE"
  shows "mood_history_file (update_mood a st) = mood_history_file st
   \<and> (mood_adjustments_file (update_mood a st) = mood_adjustments_file st
        \<or> mood_adjustments_file (update_mood a st) = Malformed)
   \<and> (infer_mood_from_hormones (fst (load_hormone_levels st))
         (fst (load_mood_weights (snd (load_hormone_levels st)))) r = Inr (mood, level) \<longrightarrow>
        fst (update_mood_from_hormones reason r t_snapshot t_entry st)
          = Inr (mood, level, get_mood_context mood level)
        \<and> mood_history_file (snd (update_mood_from_hormones reason r t_snapshot t_entry st))
          = mood_history_file st)"
proof -
  let ?st2 = "snd (load_mood_weights (snd (load_hormone_levels st)))"
  have w: "\<not> writable ?st2 MOOD_ADJUSTMENTS_FILE"
    using assms
    by (simp add: writable_def load_mood_weights_other_files load_hormone_levels_other_files)
  have files: "mood_history_file ?st2 = mood_history_file st"
    by (simp add: load_mood_weights_other_files load_hormone_levels_other_files)
  have skip: "\<And>b. mood_history_file (update_mood b ?st2) = mood_history_file ?st2"
    using update_mood_snapshot_fails [OF w] by simp
  have here: "mood_history_file (update_mood a st) = mood_history_file st
     \<and> (mood_adjustments_file (update_mood a st) = mood_adjustments_file st
          \<or> mood_adjustments_file (update_mood a st) = Malformed)"
    using update_mood_snapshot_fails [OF assms, of a] by simp
  show ?thesis
    using here files skip
    by (simp add: update_mood_from_hormones_def Let_def case_prod_beta)
qed

theorem snapshot_write_failure_skips_history_witness:
  "\<not> writable (empty_store snapshot_dump_fails) MOOD_ADJUSTMENTS_FILE
   \<and> fst (update_mood_from_hormones ''manual_recalculation'' \<lparr>random_value = 0.9, choice_index = 0\<rparr>
          ''2026-01-01T00:00:00'' ''2026-01-01T00:00:01'' (empty_store snapshot_dump_fails))
       = Inr (''excited-cheerful'', 0.5, get_mood_context ''excited-cheerful'' 0.5)
   \<and> mood_history_file
        (snd (update_mood_from_hormones ''manual_recalculation'' \<lparr>random_value = 0.9, choice_index = 0\<rparr>
          ''2026-01-01T00:00:00'' ''2026-01-01T00:00:01'' (empty_store snapshot_dump_fails)))
       = Missing"
proof -
  have i: "infer_mood_from_hormones (fst (load_hormone_levels (empty_store snapshot_dump_fails)))
         (fst (load_mood_weights (snd (load_hormone_levels (empty_store snapshot_dump_fails)))))
         \<lparr>random_value = 0.9, choice_index = 0\<rparr> = Inr (''excited-cheerful'', 0.5)"
    by (simp add: load_hormone_levels_def load_mood_weights_def empty_store_def written_def
        snapshot_dump_fails_def infer_mood_from_hormones_def scores_eval DEFAULT_HORMONES_def
        DEFAULT_MOOD_WEIGHTS_def detect_undefined_mood_state_def sorted_by_abs_score_def
        hybrid_name_def Let_def)
  have w: "\<not> writable (empty_store snapshot_dump_fails) MOOD_ADJUSTMENTS_FILE"
    by (simp add: empty_store_def snapshot_dump_fails_def writable_def)
  have m: "mood_history_file (empty_store snapshot_dump_fails) = Missing"
    by (simp add: empty_store_def)
  show ?thesis
    using w i m snapshot_write_failure_skips_history [OF w, of "plain_call []"
      "\<lparr>random_value = 0.9, choice_index = 0\<rparr>" "''excited-cheerful''" "0.5" "''manual_recalculation''"
      "''2026-01-01T00:00:00''" "''2026-01-01T00:00:01''"]
    by simp
qed

section \<open>Hormone engine: a hormone missing from the record\<close>

lemma apply_adjustments_missing:
  "(k, b) \<in> set adj \<Longrightarrow> h k = None \<Longrightarrow>
     \<exists>k'. h k' = None \<and> k' \<in> fst ` set adj \<and> apply_adjustments adj i h = Inl (KeyError k')"
proof (induction adj arbitrary: h)
  case Nil
  then show ?case by simp
next
  case (Cons a adj)
  obtain k0 b0 where a: "a = (k0, b0)" by (cases a)
  show ?case
  proof (cases "h k0")
    case None
    then show ?thesis using a by auto
  next
    case (Some level)
    let ?h1 = "h(k0 \<mapsto> max 0 (min 1 (level + b0 * i)))"
    have ne: "k \<noteq> k0" using Some Cons.prems(2) by auto
    then have "(k, b) \<in> set adj" and "?h1 k = None" using Cons.prems a by auto
    then obtain k' where k': "?h1 k' = None" "k' \<in> fst ` set adj"
      "apply_adjustments adj i ?h1 = Inl (KeyError k')"
      using Cons.IH by blast
    have "h k' = None" using k'(1) by (auto split: if_splits)
    then show ?thesis using k'(2,3) a Some by auto
  qed
qed

lemma two_levels_missing:
  assumes "f = raise_level k1 d1 \<or> f = lower_level k1 d1"
    and "g = raise_level k2 d2 \<or> g = lower_level k2 d2"
    and "h k1 = None \<or> h k2 = None"
  shows "\<exists>k'. h k' = None \<and> and_then (f h) g = Inl (KeyError k')"
proof (cases "h k1")
  case None
  then have "f h = Inl (KeyError k1)" using assms(1) by (auto simp: raise_level_def lower_level_def)
  then show ?thesis using None by (auto simp: and_then_def)
next
  case (Some v)
  then obtain x where x: "f h = Inr (h(k1 \<mapsto> x))"
    using assms(1) by (auto simp: raise_level_def lower_level_def)
  have k2: "h k2 = None" using Some assms(3) by auto
  then have "(h(k1 \<mapsto> x)) k2 = None" using Some by auto
  then have "g (h(k1 \<mapsto> x)) = Inl (KeyError k2)"
    using assms(2) by (auto simp: raise_level_def lower_level_def)
  then show ?thesis using x k2 by (auto simp: and_then_def)
qed

lemma legacy_event_missing:
  assumes "(e, hs) \<in> set legacy_event_hormones" and "k \<in> set hs" and "h k = None"
  shows "\<exists>k'. h k' = None \<and> legacy_event (Some e) h = Inl (KeyError k')"
proof -
  consider (pf) "e = ''positive_feedback''" "h ''dopamine'' = None \<or> h ''serotonin'' = None"
    | (st) "e = ''stress''" "h ''cortisol'' = None \<or> h ''serotonin'' = None"
    | (sc) "e = ''social_connection''" "h ''oxytocin'' = None \<or> h ''dopamine'' = None"
    | (iso) "e = ''isolation''" "h ''oxytocin'' = None \<or> h ''cortisol'' = None"
    | (ach) "e = ''achievement''" "h ''dopamine'' = None \<or> h ''serotonin'' = None"
    | (dis) "e = ''disappointment''" "h ''dopamine'' = None \<or> h ''serotonin'' = None"
    using assms by (auto simp: legacy_event_hormones_def)
  then show ?thesis
  proof cases
    case pf
    show ?thesis unfolding pf(1) legacy_event_def
      using two_levels_missing [OF _ _ pf(2), of "raise_level ''dopamine'' 0.1" "0.1" "raise_level ''serotonin'' 0.05" "0.05"]
      by simp
  next
    case st
    show ?thesis unfolding st(1) legacy_event_def
      using two_levels_missing [OF _ _ st(2), of "raise_level ''cortisol'' 0.1" "0.1" "lower_level ''serotonin'' 0.05" "0.05"]
      by simp
  next
    case sc
    show ?thesis unfolding sc(1) legacy_event_def
      using two_levels_missing [OF _ _ sc(2), of "raise_level ''oxytocin'' 0.1" "0.1" "raise_level ''dopamine'' 0.05" "0.05"]
      by simp
  next
    case iso
    show ?thesis unfolding iso(1) legacy_event_def
      using two_levels_missing [OF _ _ iso(2), of "lower_level ''oxytocin'' 0.1" "0.1" "raise_level ''cortisol'' 0.05" "0.05"]
      by simp
  next
    case ach
    show ?thesis unfolding ach(1) legacy_event_def
      using two_levels_missing [OF _ _ ach(2), of "raise_level ''dopamine'' 0.15" "0.15" "raise_level ''serotonin'' 0.1" "0.1"]
      by simp
  next
    case dis
    show ?thesis unfolding dis(1) legacy_event_def
      using two_levels_missing [OF _ _ dis(2), of "lower_level ''dopamine'' 0.1" "0.1" "lower_level ''serotonin'' 0.08" "0.08"]
      by simp
  qed
qed

lemma mood_score_fold_default:
  "fold (\<lambda>(hormone, weight) score. score + dict_get hl hormone 0.5 * weight) ws acc
   = fold (\<lambda>(hormone, weight) score. score + dict_get (\<lambda>k. Some (dict_get hl k 0.5)) hormone 0.5 * weight) ws acc"
  by (induction ws arbitrary: acc) (auto simp: dict_get_def)

lemma mood_score_default:
  "mood_score hl ws = mood_score (\<lambda>k. Some (dict_get hl k 0.5)) ws"
  unfolding mood_score_def by (rule mood_score_fold_default)

lemma archetype_default:
  "archetype_or_defined hl m s = archetype_or_defined (\<lambda>k. Some (dict_get hl k 0.5)) m s"
  by (simp add: archetype_or_defined_def dict_get_def)


lemma calculate_mood_scores_default:
  "calculate_mood_scores hl mw = calculate_mood_scores (\<lambda>k. Some (dict_get hl k 0.5)) mw"
  unfolding calculate_mood_scores_def using mood_score_default [of hl] by simp

text \<open>
  C10. Scoring moods and checking archetypes read the record with the default 0.5: the
  scores and the archetype decision of a record are those of the record completed with
  0.5 for every absent hormone. The two adjustment paths index the record instead: when the
  sentiment result of a text, or a known legacy event, adjusts a hormone the loaded record
  lacks, \<open>apply_contextual_hormone_adjustments\<close> and \<open>adjust_hormones\<close> raise \<open>KeyError\<close>
  for a missing hormone, and nothing is saved.
\<close>

theorem missing_hormone_raises_KeyError:
  "calculate_mood_scores hormone_levels mood_weights
     = calculate_mood_scores (\<lambda>k. Some (dict_get hormone_levels k 0.5)) mood_weights
   \<and> (hormone_levels k = None \<longrightarrow> calculate_mood_scores hormone_levels [(mood, [(k, w)])] = [(mood, 0.5 * w)])
   \<and> archetype_or_defined hormone_levels top_mood top_score
     = archetype_or_defined (\<lambda>k. Some (dict_get hormone_levels k 0.5)) top_mood top_score
   \<and> ((k, b) \<in> set (hormone_adjustments (analyze_contextual_sentiment t))
        \<and> fst (load_hormone_levels st) k = None \<longrightarrow>
        (\<exists>k'. fst (load_hormone_levels st) k' = None
           \<and> apply_contextual_hormone_adjustments t st = (Inl (KeyError k'), snd (load_hormone_levels st))))
   \<and> ((e, hs) \<in> set legacy_event_hormones \<and> k \<in> set hs \<and> fst (load_hormone_levels st) k = None \<longrightarrow>
        (\<exists>k'. fst (load_hormone_levels st) k' = None
           \<and> adjust_hormones (Some e) st = (Inl (KeyError k'), snd (load_hormone_levels st))))"
proof -
  have a: "(k, b) \<in> set (hormone_adjustments (analyze_contextual_sentiment t))
        \<and> fst (load_hormone_levels st) k = None \<longrightarrow>
        (\<exists>k'. fst (load_hormone_levels st) k' = None
           \<and> apply_contextual_hormone_adjustments t st = (Inl (KeyError k'), snd (load_hormone_levels st)))"
  proof
    assume h: "(k, b) \<in> set (hormone_adjustments (analyze_contextual_sentiment t))
        \<and> fst (load_hormone_levels st) k = None"
    then have ne: "hormone_adjustments (analyze_contextual_sentiment t) \<noteq> []" by auto
    obtain k' where "fst (load_hormone_levels st) k' = None"
      "apply_adjustments (hormone_adjustments (analyze_contextual_sentiment t))
         (intensity (analyze_contextual_sentiment t)) (fst (load_hormone_levels st)) = Inl (KeyError k')"
      using h apply_adjustments_missing by blast
    then show "\<exists>k'. fst (load_hormone_levels st) k' = None
           \<and> apply_contextual_hormone_adjustments t st = (Inl (KeyError k'), snd (load_hormone_levels st))"
      using ne by (auto simp: apply_contextual_hormone_adjustments_def Let_def case_prod_beta)
  qed
  have c: "(e, hs) \<in> set legacy_event_hormones \<and> k \<in> set hs \<and> fst (load_hormone_levels st) k = None \<longrightarrow>
        (\<exists>k'. fst (load_hormone_levels st) k' = None
           \<and> adjust_hormones (Some e) st = (Inl (KeyError k'), snd (load_hormone_levels st)))"
  proof
    assume h: "(e, hs) \<in> set legacy_event_hormones \<and> k \<in> set hs \<and> fst (load_hormone_levels st) k = None"
    then obtain k' where "fst (load_hormone_levels st) k' = None"
      "legacy_event (Some e) (fst (load_hormone_levels st)) = Inl (KeyError k')"
      using legacy_event_missing by blast
    then show "\<exists>k'. fst (load_hormone_levels st) k' = None
           \<and> adjust_hormones (Some e) st = (Inl (KeyError k'), snd (load_hormone_levels st))"
      by (auto simp: adjust_hormones_def Let_def case_prod_beta)
  qed
  have s1: "hormone_levels k = None \<longrightarrow>
      calculate_mood_scores hormone_levels [(mood, [(k, w)])] = [(mood, 0.5 * w)]"
    by (simp add: scores_eval)
  show ?thesis
    using a c s1 calculate_mood_scores_default [of hormone_levels mood_weights]
      archetype_default [of hormone_levels top_mood top_score]
    by blast
qed

theorem missing_hormone_raises_KeyError_witness:
  "(''serotonin'', 0.05) \<in> set (hormone_adjustments (analyze_contextual_sentiment ''thanks''))
   \<and> (''positive_feedback'', [''dopamine'', ''serotonin'']) \<in> set legacy_event_hormones
   \<and> fst (load_hormone_levels
        ((empty_store all_writable)\<lparr>hormones_file := Doc (map_of [(''dopamine'', 0.5)])\<rparr>)) ''serotonin'' = None
   \<and> fst (apply_contextual_hormone_adjustments ''thanks''
        ((empty_store all_writable)\<lparr>hormones_file := Doc (map_of [(''dopamine'', 0.5)])\<rparr>))
      = Inl (KeyError ''serotonin'')
   \<and> fst (adjust_hormones (Some ''positive_feedback'')
        ((empty_store all_writable)\<lparr>hormones_file := Doc (map_of [(''dopamine'', 0.5)])\<rparr>))
      = Inl (KeyError ''serotonin'')
   \<and> calculate_mood_scores (map_of [(''dopamine'', 0.5)]) [(''serene'', [(''serotonin'', 0.8)])]
      = [(''serene'', 0.4)]"
proof -
  have an: "analyze_contextual_sentiment ''thanks'' =
       \<lparr>emotion_type = ''moderate_positive'', intensity = 0.6,
        hormone_adjustments = [(''dopamine'', 0.08), (''serotonin'', 0.05)],
        confidence = 0.9, triggered_by = ''thanks'', analysis_method = ''pattern_match''\<rparr>"
    by (simp add: analyze_contextual_sentiment_def EMOTION_PATTERNS_def string_eval intensity_eval)
  show ?thesis
    using missing_hormone_raises_KeyError [where k = "''serotonin''" and b = "0.05" and t = "''thanks''"
        and e = "''positive_feedback''" and hs = "[''dopamine'', ''serotonin'']"
        and hormone_levels = "map_of [(''dopamine'', 0.5)]" and mood = "''serene''" and w = "0.8"
        and mood_weights = "[]" and top_mood = "[]" and top_score = 0
        and st = "(empty_store all_writable)\<lparr>hormones_file := Doc (map_of [(''dopamine'', 0.5)])\<rparr>"]
    by (simp add: an legacy_event_hormones_def load_hormone_levels_def empty_store_def all_writable_def
        apply_contextual_hormone_adjustments_def adjust_hormones_def legacy_event_def and_then_def
        raise_level_def Let_def scores_eval)
qed

end
